theory Spec2Isabelle
  imports Complex_Main "HOL-Library.AList" "HOL-Library.Multiset"
begin

section \<open>canvas-report: the grade analytics and triage engine\<close>

text \<open>
  A shallow embedding of the report engine of canvas-report (the Go file that starts
  \<^verbatim>\<open>// ABOUTME: Generates formatted reports of Canvas assignments and grades.\<close>
  and the data types of the Canvas client).

  Modelling conventions.
  \<^item> A Go \<^verbatim>\<open>float64\<close> is a \<^typ>\<open>real\<close>: arithmetic is exact, there is no rounding,
    no NaN and no infinity. The source guards every division by a test of the
    divisor (\<^verbatim>\<open>> 0\<close>, \<^verbatim>\<open>== 0\<close>), and the model keeps each guard. The program rounds
    every operation, so a percentage it computes can differ from the model's in the last
    bits. The theorems below are about what these bits do not change: exact zeros,
    which calculator is used on which numerator and denominator, and the values of the
    scenario. The sign of a difference of two percentages that are equal or nearly
    equal is decided by the rounding; nothing is stated about it.
  \<^item> A \<^verbatim>\<open>time.Time\<close> is an instant: the number of nanoseconds since the Unix epoch, an
    \<^typ>\<open>int\<close>. The local time zone is a fixed offset from UTC (no daylight saving
    transitions), given in nanoseconds east of UTC as the parameter \<open>tz\<close>.
  \<^item> A pointer that may be nil (\<^verbatim>\<open>*float64\<close>, \<^verbatim>\<open>*time.Time\<close>, \<^verbatim>\<open>*Submission\<close>, \<^verbatim>\<open>*bool\<close>)
    is an \<^typ>\<open>'a option\<close>; \<open>None\<close> is nil.
  \<^item> The category states are heap objects compared by address (\<^verbatim>\<open>cat == category\<close>), so
    they live in an explicit store and the map \<^verbatim>\<open>map[int]*categoryState\<close> holds addresses.
  \<^item> The clock (\<^verbatim>\<open>time.Now()\<close>) and the results of the Canvas client's calls are
    parameters.
\<close>

subsection \<open>Data model\<close>

type_synonym Time = int
type_synonym Duration = int

record Assignment =
  asgID :: int
  asgName :: string
  asgDueAt :: "Time option"
  asgPointsPossible :: "real option"

record Submission =
  AssignmentID :: int
  SubmittedAt :: "Time option"
  GradedAt :: "Time option"
  Score :: "real option"
  Missing :: bool
  Excused :: bool
  GradeMatchesCurrentSubmission :: "bool option"

text \<open>The period's \<^verbatim>\<open>ID any\<close> is a JSON number or a JSON string.\<close>

datatype PeriodID = IDNumber real | IDString string

record GradingPeriod =
  gpID :: PeriodID
  Title :: string
  StartDate :: "Time option"
  EndDate :: "Time option"

record AssignmentInGroup =
  aigID :: int
  aigName :: string
  aigPointsPossible :: "real option"
  aigDueAt :: "Time option"

record AssignmentGroup =
  grpID :: int
  grpName :: string
  GroupWeight :: real
  Assignments :: "AssignmentInGroup list"

record AssignmentImpact =
  Gain :: real
  Loss :: real
  IsWeighted :: bool

record EnrichedAssignment =
  Name :: string
  CourseName :: string
  CategoryName :: string
  DueAt :: Time
  PointsPossible :: "real option"
  Submission :: "Submission option"
  Status :: string
  Impact :: "AssignmentImpact option"

record categoryState =
  points :: real
  possible :: real
  weight :: real

record submissionInfo =
  score :: "real option"
  missing :: bool
  graded :: bool

subsection \<open>The store of category states\<close>

type_synonym addr = nat
type_synonym heap = "addr \<Rightarrow> categoryState"

text \<open>
  \<^verbatim>\<open>map[int]*categoryState\<close>: an association list with distinct keys, from group id to the
  address of the group's state. Go ranges over a map in an unspecified order; the model
  ranges in list order. Over the reals the sums do not depend on the order (lemmas
  \<open>calcOverall_order\<close>, \<open>gzOverall_order\<close> and \<open>totals_order\<close> below); in \<^verbatim>\<open>float64\<close>
  a different order can change the last bits of a sum, and each call of a closure
  ranges anew.
\<close>

type_synonym stateMap = "(int \<times> addr) list"

subsection \<open>Impact of an ungraded assignment, weighted course\<close>

text \<open>
  The closure \<^verbatim>\<open>calcOverall\<close> of \<^verbatim>\<open>calculateWeightedImpact\<close>; the variables it captures
  (\<^verbatim>\<open>category\<close>, \<^verbatim>\<open>allCategories\<close>) are parameters. \<open>calcOverallStep\<close> is one
  iteration of its loop over \<^verbatim>\<open>allCategories\<close>, on the pair
  (\<^verbatim>\<open>weightedSum\<close>, \<^verbatim>\<open>weightSum\<close>).
\<close>

definition calcOverallStep ::
  "heap \<Rightarrow> addr \<Rightarrow> real \<Rightarrow> real \<Rightarrow> bool \<Rightarrow> int \<times> addr \<Rightarrow> real \<times> real \<Rightarrow> real \<times> real" where
  "calcOverallStep h category catPoints catPossible includeCategory e acc =
     (let cat = snd e; weightedSum = fst acc; weightSum = snd acc in
      if cat = category then
        (if includeCategory \<and> catPossible > 0
         then (weightedSum + (catPoints / catPossible) * 100 * weight (h cat),
               weightSum + weight (h cat))
         else (weightedSum, weightSum))
      else if possible (h cat) > 0
      then (weightedSum + (points (h cat) / possible (h cat)) * 100 * weight (h cat),
            weightSum + weight (h cat))
      else (weightedSum, weightSum))"

definition calcOverall ::
  "heap \<Rightarrow> addr \<Rightarrow> stateMap \<Rightarrow> real \<Rightarrow> real \<Rightarrow> bool \<Rightarrow> real" where
  "calcOverall h category allCategories catPoints catPossible includeCategory =
     (let acc = fold (calcOverallStep h category catPoints catPossible includeCategory)
                  allCategories (0, 0);
          weightedSum = fst acc; weightSum = snd acc in
      if weightSum = 0 then 0 else weightedSum / weightSum)"

text \<open>The three overall percentages that \<^verbatim>\<open>calculateWeightedImpact\<close> compares.\<close>

definition calcCurrentOverall :: "heap \<Rightarrow> addr \<Rightarrow> stateMap \<Rightarrow> real" where
  "calcCurrentOverall h category allCategories =
     calcOverall h category allCategories
       (points (h category)) (possible (h category)) (possible (h category) > 0)"

definition bestOverall :: "heap \<Rightarrow> addr \<Rightarrow> real \<Rightarrow> stateMap \<Rightarrow> real" where
  "bestOverall h category assignmentPts allCategories =
     calcOverall h category allCategories
       (points (h category) + assignmentPts) (possible (h category) + assignmentPts) True"

definition worstOverall :: "heap \<Rightarrow> addr \<Rightarrow> real \<Rightarrow> stateMap \<Rightarrow> real" where
  "worstOverall h category assignmentPts allCategories =
     calcOverall h category allCategories
       (points (h category)) (possible (h category) + assignmentPts) True"

text \<open>
  \<^verbatim>\<open>calculateWeightedImpact\<close>. The pointer \<^verbatim>\<open>category\<close> is not nil here (the caller's
  nil case is a branch of \<open>calculateAssignmentImpacts\<close>). The parameter
  \<^verbatim>\<open>currentOverall\<close> is not read by the source.
\<close>

definition calculateWeightedImpact ::
  "heap \<Rightarrow> addr \<Rightarrow> real \<Rightarrow> real \<Rightarrow> stateMap \<Rightarrow> AssignmentImpact" where
  "calculateWeightedImpact h category assignmentPts currentOverall allCategories =
     (if weight (h category) = 0 then \<lparr>Gain = 0, Loss = 0, IsWeighted = False\<rparr>
      else \<lparr>Gain = bestOverall h category assignmentPts allCategories
                    - calcCurrentOverall h category allCategories,
            Loss = calcCurrentOverall h category allCategories
                    - worstOverall h category assignmentPts allCategories,
            IsWeighted = False\<rparr>)"

subsection \<open>Impact of an ungraded assignment, unweighted course\<close>

definition pct :: "real \<Rightarrow> real \<Rightarrow> real" where
  \<comment> \<open>\<^verbatim>\<open>var p float64; if possible > 0 { p = (pts / possible) * 100 }\<close>\<close>
  "pct pts poss = (if poss > 0 then (pts / poss) * 100 else 0)"

definition calculateNonWeightedImpact :: "real \<Rightarrow> real \<Rightarrow> real \<Rightarrow> real \<Rightarrow> AssignmentImpact" where
  "calculateNonWeightedImpact totalPoints totalPossible assignmentPts currentOverall =
     (let currentPct = pct totalPoints totalPossible;
          bestPts = totalPoints + assignmentPts;
          bestPossible = totalPossible + assignmentPts;
          bestPct = pct bestPts bestPossible;
          worstPts = totalPoints;
          worstPossible = totalPossible + assignmentPts;
          worstPct = pct worstPts worstPossible
      in \<lparr>Gain = bestPct - currentPct, Loss = currentPct - worstPct, IsWeighted = False\<rparr>)"

subsection \<open>Impact of an assignment graded zero\<close>

definition gzOverallStep ::
  "heap \<Rightarrow> addr \<Rightarrow> real \<Rightarrow> int \<times> addr \<Rightarrow> real \<times> real \<Rightarrow> real \<times> real" where
  "gzOverallStep h category catPct e acc =
     (let cat = snd e; weightedSum = fst acc; weightSum = snd acc in
      if cat = category
      then (weightedSum + catPct * weight (h cat), weightSum + weight (h cat))
      else if possible (h cat) > 0
      then (weightedSum + (points (h cat) / possible (h cat)) * 100 * weight (h cat),
            weightSum + weight (h cat))
      else (weightedSum, weightSum))"

text \<open>The closure \<^verbatim>\<open>calcOverall\<close> of \<^verbatim>\<open>calculateGradedZeroWeightedImpact\<close>.\<close>

definition gzOverall :: "heap \<Rightarrow> addr \<Rightarrow> stateMap \<Rightarrow> real \<Rightarrow> real \<Rightarrow> real" where
  "gzOverall h category allCategories catPoints catPossible =
     (if catPossible = 0 then 0
      else
        let catPct = (catPoints / catPossible) * 100;
            acc = fold (gzOverallStep h category catPct) allCategories (0, 0);
            weightedSum = fst acc; weightSum = snd acc
        in if weightSum = 0 then 0 else weightedSum / weightSum)"

definition calculateGradedZeroWeightedImpact ::
  "heap \<Rightarrow> addr \<Rightarrow> real \<Rightarrow> real \<Rightarrow> stateMap \<Rightarrow> AssignmentImpact" where
  "calculateGradedZeroWeightedImpact h category assignmentPts currentOverall allCategories =
     (if weight (h category) = 0 then \<lparr>Gain = 0, Loss = 0, IsWeighted = False\<rparr>
      else
        let calcCurrent = gzOverall h category allCategories
                            (points (h category)) (possible (h category));
            bestCatPts = points (h category) + assignmentPts;
            bestCatPossible = possible (h category);
            best = gzOverall h category allCategories bestCatPts bestCatPossible
        in \<lparr>Gain = best - calcCurrent, Loss = 0, IsWeighted = False\<rparr>)"

definition calculateGradedZeroNonWeightedImpact ::
  "real \<Rightarrow> real \<Rightarrow> real \<Rightarrow> real \<Rightarrow> AssignmentImpact" where
  "calculateGradedZeroNonWeightedImpact totalPoints totalPossible assignmentPts currentOverall =
     (let currentPct = pct totalPoints totalPossible;
          bestPts = totalPoints + assignmentPts;
          bestPossible = totalPossible;
          bestPct = pct bestPts bestPossible
      in \<lparr>Gain = bestPct - currentPct, Loss = 0, IsWeighted = False\<rparr>)"

subsection \<open>Category states and the impact of every open assignment\<close>

definition notNil :: "'a option \<Rightarrow> bool" where
  \<comment> \<open>\<^verbatim>\<open>p != nil\<close>\<close>
  "notNil p = (case p of None \<Rightarrow> False | Some _ \<Rightarrow> True)"

definition assignmentInPeriod :: "AssignmentInGroup \<Rightarrow> GradingPeriod option \<Rightarrow> bool" where
  "assignmentInPeriod a period =
     (case period of
        None \<Rightarrow> True
      | Some p \<Rightarrow>
          (case StartDate p of
             None \<Rightarrow> True
           | Some startDate \<Rightarrow>
               (case EndDate p of
                  None \<Rightarrow> True
                | Some endDate \<Rightarrow>
                    (case aigDueAt a of
                       None \<Rightarrow> True
                     | Some due \<Rightarrow> \<not> due < startDate \<and> \<not> due > endDate))))"

text \<open>The first loop of \<^verbatim>\<open>calculateAssignmentImpacts\<close>: a later submission of the same
  assignment id replaces an earlier one.\<close>

definition infoOf :: "Submission \<Rightarrow> submissionInfo" where
  "infoOf sub = \<lparr>score = Score sub, missing = Missing sub, graded = notNil (GradedAt sub)\<rparr>"

definition subInfoByAssignment :: "Submission list \<Rightarrow> int \<rightharpoonup> submissionInfo" where
  "subInfoByAssignment submissions =
     fold (\<lambda>sub m. m(AssignmentID sub \<mapsto> infoOf sub)) submissions Map.empty"

text \<open>The closure \<^verbatim>\<open>isGraded\<close>, with the map it captures as a parameter.\<close>

definition isGraded :: "(int \<rightharpoonup> submissionInfo) \<Rightarrow> int \<Rightarrow> bool \<times> real" where
  "isGraded infos i =
     (case infos i of
        None \<Rightarrow> (False, 0)
      | Some info \<Rightarrow>
          (case score info of
             None \<Rightarrow> (False, 0)
           | Some sc \<Rightarrow>
               if missing info \<and> sc = 0 \<and> \<not> graded info then (False, 0) else (True, sc)))"

text \<open>One iteration of the inner loop that accumulates a group's state.\<close>

definition accumulate ::
  "(int \<rightharpoonup> submissionInfo) \<Rightarrow> GradingPeriod option \<Rightarrow> AssignmentInGroup
     \<Rightarrow> categoryState \<Rightarrow> categoryState" where
  "accumulate infos period a state =
     (case aigPointsPossible a of
        None \<Rightarrow> state
      | Some pp \<Rightarrow>
          if pp = 0 then state
          else if \<not> assignmentInPeriod a period then state
          else if fst (isGraded infos (aigID a))
          then state\<lparr>points := points state + snd (isGraded infos (aigID a)),
                     possible := possible state + pp\<rparr>
          else state)"

definition groupState ::
  "(int \<rightharpoonup> submissionInfo) \<Rightarrow> GradingPeriod option \<Rightarrow> AssignmentGroup \<Rightarrow> categoryState" where
  "groupState infos period grp =
     fold (accumulate infos period) (Assignments grp)
       \<lparr>points = 0, possible = 0, weight = GroupWeight grp\<rparr>"

text \<open>
  The loop over the groups: each iteration allocates a fresh state (\<^verbatim>\<open>&categoryState{...}\<close>,
  here at the next free address \<open>n\<close>) and stores its address under the group's id.
\<close>

definition buildStep ::
  "(int \<rightharpoonup> submissionInfo) \<Rightarrow> GradingPeriod option \<Rightarrow> AssignmentGroup
     \<Rightarrow> stateMap \<times> heap \<times> addr \<Rightarrow> stateMap \<times> heap \<times> addr" where
  "buildStep infos period grp s =
     (let m = fst s; h = fst (snd s); n = snd (snd s) in
      (AList.update (grpID grp) n m, h(n := groupState infos period grp), Suc n))"

definition emptyHeap :: heap where
  "emptyHeap = (\<lambda>_. \<lparr>points = 0, possible = 0, weight = 0\<rparr>)"

definition buildStates ::
  "(int \<rightharpoonup> submissionInfo) \<Rightarrow> GradingPeriod option \<Rightarrow> AssignmentGroup list
     \<Rightarrow> stateMap \<times> heap \<times> addr" where
  "buildStates infos period groups = fold (buildStep infos period) groups ([], emptyHeap, 0)"

text \<open>The totals of an unweighted course (they stay 0 in a weighted one).\<close>

definition totals :: "bool \<Rightarrow> heap \<Rightarrow> stateMap \<Rightarrow> real \<times> real" where
  "totals weighted h categoryStates =
     (if \<not> weighted
      then fold (\<lambda>e t. (fst t + points (h (snd e)), snd t + possible (h (snd e))))
             categoryStates (0, 0)
      else (0, 0))"

text \<open>
  One iteration of the inner loop that computes the impacts. The result \<open>None\<close> is the
  run-time panic of a nil \<^verbatim>\<open>state\<close> dereferenced by a weighted calculator
  (\<^verbatim>\<open>categoryStates[group.ID]\<close> is nil for an absent key).
\<close>

definition impactStep ::
  "(int \<rightharpoonup> submissionInfo) \<Rightarrow> GradingPeriod option \<Rightarrow> bool \<Rightarrow> real \<Rightarrow> heap \<Rightarrow> stateMap
     \<Rightarrow> real \<times> real \<Rightarrow> AssignmentGroup \<Rightarrow> AssignmentInGroup
     \<Rightarrow> (int \<rightharpoonup> AssignmentImpact) option \<Rightarrow> (int \<rightharpoonup> AssignmentImpact) option" where
  "impactStep infos period weighted currentOverall h categoryStates tot grp a r =
     (case r of
        None \<Rightarrow> None
      | Some impacts \<Rightarrow>
          (case aigPointsPossible a of
             None \<Rightarrow> Some impacts
           | Some pts \<Rightarrow>
               if pts = 0 then Some impacts
               else if \<not> assignmentInPeriod a period then Some impacts
               else
                 let state = map_of categoryStates (grpID grp);
                     gr = fst (isGraded infos (aigID a));
                     sc = snd (isGraded infos (aigID a))
                 in
                   if gr \<and> sc > 0 then Some impacts
                   else if gr \<and> sc = 0 then
                     (if weighted then
                        (case state of
                           None \<Rightarrow> None
                         | Some p \<Rightarrow>
                             Some (impacts(aigID a \<mapsto>
                               (calculateGradedZeroWeightedImpact h p pts currentOverall
                                  categoryStates)\<lparr>IsWeighted := weighted\<rparr>)))
                      else
                        Some (impacts(aigID a \<mapsto>
                          (calculateGradedZeroNonWeightedImpact (fst tot) (snd tot) pts
                             currentOverall)\<lparr>IsWeighted := weighted\<rparr>)))
                   else
                     (if weighted then
                        (case state of
                           None \<Rightarrow> None
                         | Some p \<Rightarrow>
                             Some (impacts(aigID a \<mapsto>
                               (calculateWeightedImpact h p pts currentOverall
                                  categoryStates)\<lparr>IsWeighted := weighted\<rparr>)))
                      else
                        Some (impacts(aigID a \<mapsto>
                          (calculateNonWeightedImpact (fst tot) (snd tot) pts
                             currentOverall)\<lparr>IsWeighted := weighted\<rparr>)))))"

definition impactLoop ::
  "(int \<rightharpoonup> submissionInfo) \<Rightarrow> GradingPeriod option \<Rightarrow> bool \<Rightarrow> real \<Rightarrow> heap \<Rightarrow> stateMap
     \<Rightarrow> real \<times> real \<Rightarrow> AssignmentGroup list
     \<Rightarrow> (int \<rightharpoonup> AssignmentImpact) option \<Rightarrow> (int \<rightharpoonup> AssignmentImpact) option" where
  "impactLoop infos period weighted currentOverall h categoryStates tot groups r =
     fold (\<lambda>grp. fold (impactStep infos period weighted currentOverall h categoryStates
                            tot grp) (Assignments grp)) groups r"

definition calculateAssignmentImpacts ::
  "AssignmentGroup list \<Rightarrow> Submission list \<Rightarrow> real \<Rightarrow> bool \<Rightarrow> GradingPeriod option
     \<Rightarrow> (int \<rightharpoonup> AssignmentImpact) option" where
  "calculateAssignmentImpacts groups submissions currentOverall weighted period =
     (let infos = subInfoByAssignment submissions;
          built = buildStates infos period groups;
          categoryStates = fst built;
          h = fst (snd built);
          tot = totals weighted h categoryStates
      in impactLoop infos period weighted currentOverall h categoryStates tot groups
           (Some Map.empty))"

definition isWeightedGrading :: "AssignmentGroup list \<Rightarrow> bool" where
  "isWeightedGrading groups = list_ex (\<lambda>g. GroupWeight g > 0) groups"

subsection \<open>Calendar arithmetic\<close>

definition nsPerDay :: int where
  "nsPerDay = 86400000000000"

definition oneMonthAgo :: Duration where
  \<comment> \<open>\<^verbatim>\<open>30 * 24 * time.Hour\<close>\<close>
  "oneMonthAgo = 30 * 24 * 3600000000000"

text \<open>The number of the local calendar day of an instant, counted from 1 January 1970.\<close>

definition localDay :: "int \<Rightarrow> Time \<Rightarrow> int" where
  "localDay tz t = (t + tz) div nsPerDay"

text \<open>\<^verbatim>\<open>time.Weekday\<close>: \<^verbatim>\<open>Sunday = 0\<close>, ..., \<^verbatim>\<open>Saturday = 6\<close>.\<close>

datatype Weekday = Sunday | Monday | Tuesday | Wednesday | Thursday | Friday | Saturday

fun weekdayIndex :: "Weekday \<Rightarrow> int" where
  \<comment> \<open>\<^verbatim>\<open>int(d)\<close> for a \<^verbatim>\<open>time.Weekday\<close>\<close>
  "weekdayIndex Sunday = 0"
| "weekdayIndex Monday = 1"
| "weekdayIndex Tuesday = 2"
| "weekdayIndex Wednesday = 3"
| "weekdayIndex Thursday = 4"
| "weekdayIndex Friday = 5"
| "weekdayIndex Saturday = 6"

definition weekdayOfIndex :: "int \<Rightarrow> Weekday" where
  "weekdayOfIndex i =
     (if i = 0 then Sunday else if i = 1 then Monday else if i = 2 then Tuesday
      else if i = 3 then Wednesday else if i = 4 then Thursday else if i = 5 then Friday
      else Saturday)"

definition weekday :: "int \<Rightarrow> Time \<Rightarrow> Weekday" where
  \<comment> \<open>\<^verbatim>\<open>t.Weekday()\<close>; 1 January 1970 was a Thursday\<close>
  "weekday tz t = weekdayOfIndex ((localDay tz t + 4) mod 7)"

definition AddDate :: "Time \<Rightarrow> int \<Rightarrow> Time" where
  \<comment> \<open>\<^verbatim>\<open>t.AddDate(0, 0, days)\<close>: the same wall clock time \<open>days\<close> calendar days later\<close>
  "AddDate t days = t + days * nsPerDay"

definition truncateToDay :: "int \<Rightarrow> Time \<Rightarrow> Time" where
  \<comment> \<open>\<^verbatim>\<open>time.Date(t.Year(), t.Month(), t.Day(), 0, 0, 0, 0, t.Location())\<close>: local midnight\<close>
  "truncateToDay tz t = t - (t + tz) mod nsPerDay"

definition nextSchoolDay :: "int \<Rightarrow> Time \<Rightarrow> Time" where
  "nextSchoolDay tz date =
     (case weekday tz date of
        Friday \<Rightarrow> AddDate date 3
      | Saturday \<Rightarrow> AddDate date 2
      | _ \<Rightarrow> AddDate date 1)"

definition endOfSchoolWeek :: "int \<Rightarrow> Time \<Rightarrow> Time" where
  "endOfSchoolWeek tz date =
     (case weekday tz date of
        Sunday \<Rightarrow> AddDate date 5
      | Saturday \<Rightarrow> AddDate date 6
      | Friday \<Rightarrow> AddDate date 7
      | d \<Rightarrow> (let daysUntilFriday = 5 - weekdayIndex d in AddDate date daysUntilFriday))"

subsection \<open>Submission predicates and status\<close>

definition isCompleted :: "Submission option \<Rightarrow> bool" where
  "isCompleted sub =
     (case sub of
        None \<Rightarrow> False
      | Some s \<Rightarrow> notNil (SubmittedAt s) \<or> notNil (GradedAt s) \<or> Excused s)"

definition awaitingGrade :: "Submission option \<Rightarrow> bool" where
  "awaitingGrade sub =
     (case sub of
        None \<Rightarrow> False
      | Some s \<Rightarrow>
          (case SubmittedAt s of
             None \<Rightarrow> False
           | Some _ \<Rightarrow>
               (case GradeMatchesCurrentSubmission s of
                  None \<Rightarrow> False
                | Some b \<Rightarrow> \<not> b)))"

text \<open>\<^verbatim>\<open>sub.Score != nil && *sub.Score == 0 && sub.GradedAt != nil\<close>, for a submission.\<close>

definition gradedZero :: "Submission \<Rightarrow> bool" where
  "gradedZero s = (case Score s of None \<Rightarrow> False | Some x \<Rightarrow> x = 0 \<and> notNil (GradedAt s))"

text \<open>The local \<^verbatim>\<open>isMissing\<close> of \<^verbatim>\<open>missingAssignments\<close>.\<close>

definition isMissing :: "Submission option \<Rightarrow> bool" where
  "isMissing sub = (case sub of None \<Rightarrow> True | Some s \<Rightarrow> Missing s \<or> gradedZero s)"

text \<open>
  \<^verbatim>\<open>int(x)\<close> of a \<^verbatim>\<open>float64\<close> truncates towards zero (for a value in the range of
  \<^verbatim>\<open>int\<close>), and \<^verbatim>\<open>%d\<close> prints it in decimal.
\<close>

definition truncInt :: "real \<Rightarrow> int" where
  "truncInt x = (if x \<ge> 0 then \<lfloor>x\<rfloor> else \<lceil>x\<rceil>)"

fun digitsOf :: "nat \<Rightarrow> string" where
  "digitsOf n =
     (if n < 10 then [''0123456789'' ! n]
      else digitsOf (n div 10) @ [''0123456789'' ! (n mod 10)])"

declare digitsOf.simps [simp del]

definition formatInt :: "int \<Rightarrow> string" where
  "formatInt i = (if i < 0 then CHR ''-'' # digitsOf (nat (- i)) else digitsOf (nat i))"

definition determineStatus :: "EnrichedAssignment \<Rightarrow> string" where
  "determineStatus a =
     (case Submission a of
        None \<Rightarrow> ''Missing''
      | Some sub \<Rightarrow>
          if gradedZero sub then
            (case PointsPossible a of
               Some pp \<Rightarrow> ''Graded 0/'' @ formatInt (truncInt pp)
             | None \<Rightarrow> ''Graded 0'')
          else ''Missing'')"

definition countPending :: "EnrichedAssignment list \<Rightarrow> nat" where
  "countPending assignments =
     fold (\<lambda>a count. if \<not> isCompleted (Submission a) then count + 1 else count) assignments 0"

subsection \<open>The three time buckets\<close>

text \<open>
  Each function reads the clock once (\<^verbatim>\<open>time.Now()\<close>, the parameter \<open>now\<close>), runs its loop
  over the assignments (the step functions below) and sorts the result by due time.
  \<^verbatim>\<open>sort.Slice\<close> does not promise the order of assignments with equal due times; the
  model keeps them in input order.
\<close>

definition missingStep ::
  "bool \<Rightarrow> Time \<Rightarrow> Time \<Rightarrow> EnrichedAssignment \<Rightarrow> EnrichedAssignment list
     \<Rightarrow> EnrichedAssignment list" where
  "missingStep showAll now cutoff a result =
     (if DueAt a > now then result
      else if \<not> showAll \<and> DueAt a < cutoff then result
      else if isMissing (Submission a) \<and> \<not> awaitingGrade (Submission a)
      then result @ [a\<lparr>Status := determineStatus a\<rparr>]
      else result)"

definition missingAssignments ::
  "bool \<Rightarrow> Time \<Rightarrow> EnrichedAssignment list \<Rightarrow> EnrichedAssignment list" where
  "missingAssignments showAll now assignments =
     (let cutoff = now - oneMonthAgo
      in sort_key DueAt (fold (missingStep showAll now cutoff) assignments []))"

definition upcomingStep ::
  "int \<Rightarrow> Time \<Rightarrow> Time \<Rightarrow> Time \<Rightarrow> EnrichedAssignment \<Rightarrow> EnrichedAssignment list
     \<Rightarrow> EnrichedAssignment list" where
  "upcomingStep tz now today tomorrow a result =
     (let dueDate = truncateToDay tz (DueAt a) in
      if dueDate = today then (if DueAt a > now then result @ [a] else result)
      else if dueDate = tomorrow then result @ [a]
      else result)"

definition upcomingAssignments ::
  "int \<Rightarrow> Time \<Rightarrow> EnrichedAssignment list \<Rightarrow> EnrichedAssignment list" where
  "upcomingAssignments tz now assignments =
     (let today = truncateToDay tz now;
          tomorrow = nextSchoolDay tz today
      in sort_key DueAt (fold (upcomingStep tz now today tomorrow) assignments []))"

definition weekAheadStep ::
  "int \<Rightarrow> Time \<Rightarrow> Time \<Rightarrow> EnrichedAssignment \<Rightarrow> EnrichedAssignment list
     \<Rightarrow> EnrichedAssignment list" where
  "weekAheadStep tz weekStart weekEnd a result =
     (let dueDate = truncateToDay tz (DueAt a) in
      if (dueDate = weekStart \<or> dueDate > weekStart) \<and> (dueDate = weekEnd \<or> dueDate < weekEnd)
      then result @ [a]
      else result)"

definition weekAheadAssignments ::
  "int \<Rightarrow> Time \<Rightarrow> EnrichedAssignment list \<Rightarrow> EnrichedAssignment list" where
  "weekAheadAssignments tz now assignments =
     (let today = truncateToDay tz now;
          tomorrow = nextSchoolDay tz today;
          weekStart = AddDate tomorrow 1;
          weekEnd = endOfSchoolWeek tz today
      in if weekStart > weekEnd then []
         else sort_key DueAt (fold (weekAheadStep tz weekStart weekEnd) assignments []))"

subsection \<open>Enriched assignments of a course\<close>

definition categoryByAssignment :: "AssignmentGroup list \<Rightarrow> int \<rightharpoonup> string" where
  "categoryByAssignment groups =
     fold (\<lambda>grp. fold (\<lambda>a m. m(aigID a \<mapsto> grpName grp)) (Assignments grp)) groups Map.empty"

definition submissionsByID :: "Submission list \<Rightarrow> int \<rightharpoonup> Submission" where
  "submissionsByID rawSubmissions =
     fold (\<lambda>sub m. m(AssignmentID sub \<mapsto> sub)) rawSubmissions Map.empty"

text \<open>One iteration of the last loop of \<^verbatim>\<open>fetchCourseAssignments\<close>.\<close>

definition enrichStep ::
  "string \<Rightarrow> (int \<rightharpoonup> string) \<Rightarrow> (int \<rightharpoonup> Submission) \<Rightarrow> (int \<rightharpoonup> AssignmentImpact)
     \<Rightarrow> Assignment \<Rightarrow> EnrichedAssignment list \<Rightarrow> EnrichedAssignment list" where
  "enrichStep courseName categories subs impacts a result =
     (case asgDueAt a of
        None \<Rightarrow> result
      | Some due \<Rightarrow>
          result @
            [\<lparr>Name = asgName a,
              CourseName = courseName,
              CategoryName = (case categories (asgID a) of None \<Rightarrow> [] | Some c \<Rightarrow> c),
              DueAt = due,
              PointsPossible = asgPointsPossible a,
              Submission = subs (asgID a),
              Status = [],
              Impact = impacts (asgID a)\<rparr>])"

text \<open>
  \<^verbatim>\<open>fetchCourseAssignments\<close> after its calls of the Canvas client: \<open>rawAssignments\<close> and
  \<open>rawSubmissions\<close> are what the client returned, \<open>groups\<close> is the list of assignment
  groups (empty, that is nil, when the call failed or returned none), \<open>currentOverall\<close>
  and \<open>currentPeriod\<close> are the current score and grading period found (0 and nil
  otherwise). \<open>None\<close> is the panic of \<open>calculateAssignmentImpacts\<close>.
\<close>

definition fetchCourseAssignments ::
  "string \<Rightarrow> Assignment list \<Rightarrow> Submission list \<Rightarrow> AssignmentGroup list \<Rightarrow> real
     \<Rightarrow> GradingPeriod option \<Rightarrow> EnrichedAssignment list option" where
  "fetchCourseAssignments course rawAssignments rawSubmissions groups currentOverall
     currentPeriod =
     (let weighted = isWeightedGrading groups;
          impactsR = (if groups \<noteq> []
                      then calculateAssignmentImpacts groups rawSubmissions currentOverall
                             weighted currentPeriod
                      else Some Map.empty)
      in case impactsR of
           None \<Rightarrow> None
         | Some impacts \<Rightarrow>
             let categories = (if weighted \<and> groups \<noteq> [] then categoryByAssignment groups
                               else Map.empty);
                 subs = submissionsByID rawSubmissions;
                 courseName = (if course = [] then ''Unknown Course'' else course)
             in Some (fold (enrichStep courseName categories subs impacts) rawAssignments []))"

subsection \<open>Selection conditions of the buckets\<close>

text \<open>
  What the loop bodies of the three bucket functions test, as predicates of the fields
  they read: the due time, and for the missing bucket the submission.
\<close>

definition missingSelected :: "bool \<Rightarrow> Time \<Rightarrow> Time \<Rightarrow> Submission option \<Rightarrow> bool" where
  "missingSelected showAll now due sub =
     (due \<le> now \<and> (showAll \<or> now - oneMonthAgo \<le> due) \<and> isMissing sub \<and> \<not> awaitingGrade sub)"

definition upcomingSelected :: "int \<Rightarrow> Time \<Rightarrow> Time \<Rightarrow> bool" where
  "upcomingSelected tz now due =
     (let today = truncateToDay tz now; dueDate = truncateToDay tz due
      in (dueDate = today \<and> due > now) \<or> dueDate = nextSchoolDay tz today)"

definition weekAheadSelected :: "int \<Rightarrow> Time \<Rightarrow> Time \<Rightarrow> bool" where
  "weekAheadSelected tz now due =
     (let today = truncateToDay tz now; dueDate = truncateToDay tz due
      in AddDate (nextSchoolDay tz today) 1 \<le> dueDate \<and> dueDate \<le> endOfSchoolWeek tz today)"

subsection \<open>The specification's reading of a graded assignment\<close>

text \<open>
  The submission that \<open>subInfoByAssignment\<close> holds for an assignment id: the last one
  of the list with that id.
\<close>

definition submissionOf :: "Submission list \<Rightarrow> int \<Rightarrow> Submission option" where
  "submissionOf submissions i = find (\<lambda>sub. AssignmentID sub = i) (rev submissions)"

text \<open>
  In the specification's words: an assignment counts as graded if it has a recorded
  score and either it is not flagged missing, or it is flagged missing with a non-zero
  score, or it is flagged missing with a zero score and has a graded timestamp.
\<close>

definition countsAsGraded :: "Submission \<Rightarrow> bool" where
  "countsAsGraded sub =
     (case Score sub of
        None \<Rightarrow> False
      | Some sc \<Rightarrow>
          \<not> Missing sub \<or> (Missing sub \<and> sc \<noteq> 0)
          \<or> (Missing sub \<and> sc = 0 \<and> notNil (GradedAt sub)))"

text \<open>
  The assignments of a group that the accumulation counts: those with points possible
  that are not nil and not zero, in the period, and graded; and the points possible of
  an assignment (0 for nil).
\<close>

definition counted ::
  "(int \<rightharpoonup> submissionInfo) \<Rightarrow> GradingPeriod option \<Rightarrow> AssignmentInGroup \<Rightarrow> bool" where
  "counted infos period a =
     (case aigPointsPossible a of
        None \<Rightarrow> False
      | Some pp \<Rightarrow> pp \<noteq> 0 \<and> assignmentInPeriod a period \<and> fst (isGraded infos (aigID a)))"

definition pointsOf :: "AssignmentInGroup \<Rightarrow> real" where
  "pointsOf a = (case aigPointsPossible a of None \<Rightarrow> 0 | Some pp \<Rightarrow> pp)"

subsection \<open>Eligibility for an impact\<close>

text \<open>
  The assignments for which the last loop of \<^verbatim>\<open>calculateAssignmentImpacts\<close> stores an
  impact: points possible not nil and not zero, in the period, and not graded with a
  positive score. \<open>assignmentIDs\<close> lists the assignment ids of all groups in loop order.
\<close>

definition eligible ::
  "(int \<rightharpoonup> submissionInfo) \<Rightarrow> GradingPeriod option \<Rightarrow> AssignmentInGroup \<Rightarrow> bool" where
  "eligible infos period a =
     (case aigPointsPossible a of
        None \<Rightarrow> False
      | Some pts \<Rightarrow>
          pts \<noteq> 0 \<and> assignmentInPeriod a period
          \<and> \<not> (fst (isGraded infos (aigID a)) \<and> snd (isGraded infos (aigID a)) > 0))"

definition assignmentIDs :: "AssignmentGroup list \<Rightarrow> int list" where
  "assignmentIDs groups = concat (map (\<lambda>grp. map aigID (Assignments grp)) groups)"

text \<open>
  The impact that an iteration stores for an eligible assignment of a group whose state
  is at address \<open>p\<close>, and the (group, assignment) pairs in loop order.
\<close>

definition impactOf ::
  "(int \<rightharpoonup> submissionInfo) \<Rightarrow> bool \<Rightarrow> real \<Rightarrow> heap \<Rightarrow> stateMap \<Rightarrow> real \<times> real \<Rightarrow> addr
     \<Rightarrow> AssignmentInGroup \<Rightarrow> AssignmentImpact" where
  "impactOf infos weighted currentOverall h categoryStates tot p a =
     (if fst (isGraded infos (aigID a)) \<and> snd (isGraded infos (aigID a)) = 0
      then (if weighted
            then calculateGradedZeroWeightedImpact h p (pointsOf a) currentOverall categoryStates
            else calculateGradedZeroNonWeightedImpact (fst tot) (snd tot) (pointsOf a)
                   currentOverall)
      else (if weighted
            then calculateWeightedImpact h p (pointsOf a) currentOverall categoryStates
            else calculateNonWeightedImpact (fst tot) (snd tot) (pointsOf a) currentOverall))
     \<lparr>IsWeighted := weighted\<rparr>"

definition groupPairs :: "AssignmentGroup list \<Rightarrow> (AssignmentGroup \<times> AssignmentInGroup) list" where
  "groupPairs groups = concat (map (\<lambda>grp. map (Pair grp) (Assignments grp)) groups)"

text \<open>The entry of an assignment id in the result of \<open>calculateAssignmentImpacts\<close>.\<close>

definition impactAt ::
  "int \<Rightarrow> (int \<rightharpoonup> AssignmentImpact) option \<Rightarrow> AssignmentImpact option" where
  "impactAt i r = (case r of None \<Rightarrow> None | Some impacts \<Rightarrow> impacts i)"

text \<open>
  The map \<^verbatim>\<open>categoryStates\<close>, the store and the flat totals that
  \<open>calculateAssignmentImpacts\<close> has built when its last loop starts.
\<close>

definition builtStates ::
  "AssignmentGroup list \<Rightarrow> Submission list \<Rightarrow> GradingPeriod option \<Rightarrow> stateMap" where
  "builtStates groups submissions period =
     fst (buildStates (subInfoByAssignment submissions) period groups)"

definition builtHeap ::
  "AssignmentGroup list \<Rightarrow> Submission list \<Rightarrow> GradingPeriod option \<Rightarrow> heap" where
  "builtHeap groups submissions period =
     fst (snd (buildStates (subInfoByAssignment submissions) period groups))"

definition builtTotals ::
  "bool \<Rightarrow> AssignmentGroup list \<Rightarrow> Submission list \<Rightarrow> GradingPeriod option \<Rightarrow> real \<times> real" where
  "builtTotals weighted groups submissions period =
     totals weighted (builtHeap groups submissions period)
       (builtStates groups submissions period)"

subsection \<open>Sums of the weighted average\<close>

text \<open>
  What the loop of \<^verbatim>\<open>calcOverall\<close> adds up for the categories other than \<open>category\<close>
  (those with possible points above 0), and the number of entries of the map that hold
  \<open>category\<close>.
\<close>

definition othersWeighted :: "heap \<Rightarrow> addr \<Rightarrow> stateMap \<Rightarrow> real" where
  "othersWeighted h category allCategories =
     sum_list (map (\<lambda>e. (points (h (snd e)) / possible (h (snd e))) * 100 * weight (h (snd e)))
       (filter (\<lambda>e. snd e \<noteq> category \<and> possible (h (snd e)) > 0) allCategories))"

definition othersWeight :: "heap \<Rightarrow> addr \<Rightarrow> stateMap \<Rightarrow> real" where
  "othersWeight h category allCategories =
     sum_list (map (\<lambda>e. weight (h (snd e)))
       (filter (\<lambda>e. snd e \<noteq> category \<and> possible (h (snd e)) > 0) allCategories))"

definition occurrences :: "addr \<Rightarrow> stateMap \<Rightarrow> real" where
  "occurrences category allCategories =
     real (length (filter (\<lambda>e. snd e = category) allCategories))"

subsection \<open>Example inputs\<close>

text \<open>
  The weighted course of the specification's scenario: category A (weight 40, at address 0)
  holds 190 of 200 points, category B (weight 60, at address 1) is empty.
\<close>

definition scenarioHeap :: heap where
  "scenarioHeap = emptyHeap
     (0 := \<lparr>points = 190, possible = 200, weight = 40\<rparr>,
      1 := \<lparr>points = 0, possible = 0, weight = 60\<rparr>)"

definition scenarioMap :: stateMap where
  "scenarioMap = [(1, 0), (2, 1)]"

text \<open>
  The same scenario as the input of \<open>calculateAssignmentImpacts\<close>: group A (id 1) holds
  a piece of work graded 190 of 200 and the open assignment of 50 points, group B (id 2)
  is empty.
\<close>

definition scenarioGroups :: "AssignmentGroup list" where
  "scenarioGroups =
     [\<lparr>grpID = 1, grpName = ''A'', GroupWeight = 40,
       Assignments =
         [\<lparr>aigID = 1, aigName = ''Graded work'', aigPointsPossible = Some 200,
            aigDueAt = None\<rparr>,
          \<lparr>aigID = 2, aigName = ''Open work'', aigPointsPossible = Some 50,
            aigDueAt = None\<rparr>]\<rparr>,
      \<lparr>grpID = 2, grpName = ''B'', GroupWeight = 60, Assignments = []\<rparr>]"

definition scenarioSubmissions :: "Submission list" where
  "scenarioSubmissions =
     [\<lparr>AssignmentID = 1, SubmittedAt = None, GradedAt = Some 0, Score = Some 190,
       Missing = False, Excused = False, GradeMatchesCurrentSubmission = None\<rparr>]"

text \<open>
  A clock reading for the examples: Monday 5 January 1970, 12:00, in a zone at offset 0
  (day 0 of the epoch is a Thursday).
\<close>

definition exampleNow :: Time where
  "exampleNow = 4 * 86400000000000 + 12 * 3600000000000"

definition exampleSubmission :: Submission where
  "exampleSubmission =
     \<lparr>AssignmentID = 1, SubmittedAt = None, GradedAt = None, Score = None,
      Missing = False, Excused = False, GradeMatchesCurrentSubmission = None\<rparr>"

text \<open>An assignment of 8 points that was due the day before, at noon, with no submission.\<close>

definition exampleAssignment :: EnrichedAssignment where
  "exampleAssignment =
     \<lparr>Name = ''Essay'', CourseName = ''English'', CategoryName = [],
      DueAt = exampleNow - 86400000000000, PointsPossible = Some 8,
      Submission = None, Status = [], Impact = None\<rparr>"

text \<open>The same assignment with a submission flagged both missing and excused.\<close>

definition excusedMissing :: EnrichedAssignment where
  "excusedMissing =
     exampleAssignment\<lparr>Submission :=
       Some (exampleSubmission\<lparr>Missing := True, Excused := True\<rparr>)\<rparr>"

text \<open>
  A submission that was handed in again and waits for its grade: it has a submitted
  timestamp, and the grade does not match the current submission.
\<close>

definition resubmitted :: Submission where
  "resubmitted =
     exampleSubmission\<lparr>SubmittedAt := Some (exampleNow - 2 * 86400000000000),
       Missing := True, GradeMatchesCurrentSubmission := Some False\<rparr>"

definition awaitingOverdue :: EnrichedAssignment where
  "awaitingOverdue = exampleAssignment\<lparr>Submission := Some resubmitted\<rparr>"

definition awaitingDueTomorrow :: EnrichedAssignment where
  "awaitingDueTomorrow =
     exampleAssignment\<lparr>DueAt := exampleNow + 86400000000000, Submission := Some resubmitted\<rparr>"

text \<open>
  Two overdue assignments whose submissions carry the same flags and the same graded
  timestamp, one with a score of 0 and one with a score of 5.
\<close>

definition scoredZero :: EnrichedAssignment where
  "scoredZero =
     exampleAssignment\<lparr>Submission :=
       Some (exampleSubmission\<lparr>GradedAt := Some exampleNow, Score := Some 0\<rparr>)\<rparr>"

definition scoredFive :: EnrichedAssignment where
  "scoredFive =
     exampleAssignment\<lparr>Submission :=
       Some (exampleSubmission\<lparr>GradedAt := Some exampleNow, Score := Some 5\<rparr>)\<rparr>"

text \<open>
  A course with a practice group of weight 0 and a tests group of weight 100. The warm-up
  has no due date and no submission; the worksheet is graded 9 of 10; the quiz is graded
  0 of 20 by the teacher; the exam is open.
\<close>

definition warmUp :: AssignmentInGroup where
  "warmUp = \<lparr>aigID = 11, aigName = ''Warm up'', aigPointsPossible = Some 10, aigDueAt = None\<rparr>"

definition worksheet :: AssignmentInGroup where
  "worksheet = \<lparr>aigID = 12, aigName = ''Worksheet'', aigPointsPossible = Some 10,
     aigDueAt = Some (exampleNow - 86400000000000)\<rparr>"

definition quiz :: AssignmentInGroup where
  "quiz = \<lparr>aigID = 21, aigName = ''Quiz'', aigPointsPossible = Some 20,
     aigDueAt = Some (exampleNow - 86400000000000)\<rparr>"

definition exam :: AssignmentInGroup where
  "exam = \<lparr>aigID = 22, aigName = ''Exam'', aigPointsPossible = Some 50,
     aigDueAt = Some (exampleNow + 86400000000000)\<rparr>"

definition practiceGroup :: AssignmentGroup where
  "practiceGroup = \<lparr>grpID = 1, grpName = ''Practice'', GroupWeight = 0,
     Assignments = [warmUp, worksheet]\<rparr>"

definition testsGroup :: AssignmentGroup where
  "testsGroup = \<lparr>grpID = 2, grpName = ''Tests'', GroupWeight = 100,
     Assignments = [quiz, exam]\<rparr>"

definition courseSubmissions :: "Submission list" where
  "courseSubmissions =
     [exampleSubmission\<lparr>AssignmentID := 12, GradedAt := Some exampleNow, Score := Some 9\<rparr>,
      exampleSubmission\<lparr>AssignmentID := 21, GradedAt := Some exampleNow, Score := Some 0,
        Missing := True\<rparr>]"

definition examplePeriod :: GradingPeriod where
  "examplePeriod = \<lparr>gpID = IDNumber 7, Title = ''Q2'',
     StartDate = Some (exampleNow - 30 * 86400000000000),
     EndDate = Some (exampleNow + 30 * 86400000000000)\<rparr>"

text \<open>The assignments of the course as the assignments call returns them.\<close>

definition courseAssignments :: "Assignment list" where
  "courseAssignments =
     [\<lparr>asgID = 11, asgName = ''Warm up'', asgDueAt = None, asgPointsPossible = Some 10\<rparr>,
      \<lparr>asgID = 22, asgName = ''Exam'', asgDueAt = Some (exampleNow + 86400000000000),
        asgPointsPossible = Some 50\<rparr>]"

section \<open>Unfolding the model on concrete inputs\<close>

text \<open>
  The definitions of the examples, of the bucket functions and of the impact calculation,
  collected for the evaluation of concrete inputs by the simplifier.
\<close>

lemmas example_defs =
  exampleNow_def exampleSubmission_def exampleAssignment_def

lemmas bucket_defs =
  missingAssignments_def missingStep_def isMissing_def gradedZero_def awaitingGrade_def
  determineStatus_def oneMonthAgo_def notNil_def
  upcomingAssignments_def upcomingStep_def weekAheadAssignments_def weekAheadStep_def
  truncateToDay_def nextSchoolDay_def endOfSchoolWeek_def weekday_def weekdayOfIndex_def
  localDay_def AddDate_def nsPerDay_def Let_def

lemmas course_defs =
  warmUp_def worksheet_def quiz_def exam_def practiceGroup_def testsGroup_def
  courseSubmissions_def examplePeriod_def exampleSubmission_def
  exampleNow_def

lemmas impact_defs =
  calculateAssignmentImpacts_def impactLoop_def impactStep_def buildStates_def buildStep_def
  groupState_def accumulate_def isGraded_def subInfoByAssignment_def infoOf_def
  assignmentInPeriod_def totals_def emptyHeap_def notNil_def impactAt_def Let_def
  calculateWeightedImpact_def calculateNonWeightedImpact_def
  calculateGradedZeroWeightedImpact_def calculateGradedZeroNonWeightedImpact_def
  calcCurrentOverall_def bestOverall_def worstOverall_def calcOverall_def calcOverallStep_def
  gzOverall_def gzOverallStep_def pct_def


section \<open>Calendar arithmetic\<close>

lemma nsPerDay_pos: "0 < nsPerDay"
  by (simp add: nsPerDay_def)

lemma truncateToDay_alt: "truncateToDay tz t = localDay tz t * nsPerDay - tz"
proof -
  have "(t + tz) div nsPerDay * nsPerDay + (t + tz) mod nsPerDay = t + tz"
    by (rule div_mult_mod_eq)
  then show ?thesis
    unfolding truncateToDay_def localDay_def by linarith
qed

lemma localDay_mono: "t \<le> u \<Longrightarrow> localDay tz t \<le> localDay tz u"
  unfolding localDay_def using nsPerDay_pos by (simp add: zdiv_mono1)

lemma truncateToDay_mono: "t \<le> u \<Longrightarrow> truncateToDay tz t \<le> truncateToDay tz u"
  unfolding truncateToDay_alt using localDay_mono [of t u tz] nsPerDay_pos
  by (simp add: mult_right_mono)

lemma truncateToDay_le: "truncateToDay tz t \<le> t"
  unfolding truncateToDay_def using nsPerDay_pos by simp

lemma AddDate_gt: "0 < n \<Longrightarrow> t < AddDate t n"
  unfolding AddDate_def using nsPerDay_pos by simp

lemma weekdayIndex_weekday: "weekdayIndex (weekday tz t) = (localDay tz t + 4) mod 7"
proof -
  have "0 \<le> (localDay tz t + 4) mod 7" "(localDay tz t + 4) mod 7 < 7" by simp_all
  then have "(localDay tz t + 4) mod 7 \<in> {0,1,2,3,4,5,6}" by auto
  then show ?thesis
    unfolding weekday_def weekdayOfIndex_def by auto
qed

lemma localDay_AddDate: "localDay tz (AddDate t n) = localDay tz t + n"
  by (simp add: localDay_def AddDate_def nsPerDay_def add.commute add.left_commute)

lemma weekday_AddDate:
  "weekday tz (AddDate t n) = weekdayOfIndex ((weekdayIndex (weekday tz t) + n) mod 7)"
proof -
  have "(localDay tz t + n + 4) mod 7 = ((localDay tz t + 4) mod 7 + n) mod 7"
    by (simp add: mod_simps add.commute add.left_commute)
  then show ?thesis
    unfolding weekdayIndex_weekday by (simp add: weekday_def localDay_AddDate)
qed

lemma nextSchoolDay_gt: "date < nextSchoolDay tz date"
  unfolding nextSchoolDay_def by (cases "weekday tz date") (simp_all add: AddDate_gt)

lemma weekStart_gt: "date < AddDate (nextSchoolDay tz date) 1"
  using nextSchoolDay_gt [of date tz] AddDate_gt [of 1 "nextSchoolDay tz date"] by linarith

text \<open>
  Claim C10. Whatever the weekday of its argument, \<open>endOfSchoolWeek\<close> returns a date
  that falls on a Friday: 5, 6 and 7 days after a Sunday, a Saturday and a Friday, and
  5 minus the weekday's index days after any other day.
\<close>

theorem endOfSchoolWeek_is_Friday:
  "weekday tz (endOfSchoolWeek tz date) = Friday
   \<and> endOfSchoolWeek tz date =
       AddDate date
         (case weekday tz date of
            Sunday \<Rightarrow> 5 | Saturday \<Rightarrow> 6 | Friday \<Rightarrow> 7
          | d \<Rightarrow> 5 - weekdayIndex d)"
  by (cases "weekday tz date")
     (simp_all add: endOfSchoolWeek_def weekday_AddDate weekdayOfIndex_def)

section \<open>The scenario of the weighted course\<close>

lemma scenario_current: "calcCurrentOverall scenarioHeap 0 scenarioMap = 95"
  by (simp add: calcCurrentOverall_def calcOverall_def calcOverallStep_def
        scenarioHeap_def scenarioMap_def emptyHeap_def)

lemma scenario_best: "bestOverall scenarioHeap 0 50 scenarioMap = 96"
  by (simp add: bestOverall_def calcOverall_def calcOverallStep_def
        scenarioHeap_def scenarioMap_def emptyHeap_def)

lemma scenario_worst: "worstOverall scenarioHeap 0 50 scenarioMap = 76"
  by (simp add: worstOverall_def calcOverall_def calcOverallStep_def
        scenarioHeap_def scenarioMap_def emptyHeap_def)

lemma scenario_weight: "weight (scenarioHeap 0) = 40"
  by (simp add: scenarioHeap_def)

lemma scenario_built:
  "builtStates scenarioGroups scenarioSubmissions None = scenarioMap
   \<and> builtHeap scenarioGroups scenarioSubmissions None 0 = scenarioHeap 0
   \<and> builtHeap scenarioGroups scenarioSubmissions None 1 = scenarioHeap 1"
  by (simp add: builtStates_def builtHeap_def scenarioGroups_def scenarioSubmissions_def
        scenarioMap_def scenarioHeap_def impact_defs)

lemma scenario_end_to_end:
  "impactAt 2 (calculateAssignmentImpacts scenarioGroups scenarioSubmissions 95
       (isWeightedGrading scenarioGroups) None)
     = Some \<lparr>Gain = 1, Loss = 19, IsWeighted = True\<rparr>"
  by (simp add: isWeightedGrading_def scenarioGroups_def scenarioSubmissions_def impact_defs)

text \<open>
  Claim C1, as amended. In the scenario (category A, weight 40, 190 of 200 points;
  category B, weight 60, empty) an ungraded assignment of 50 points in category A has
  a current overall of 95, a best case of (190 + 50) / (200 + 50) = 96 percent, so a
  gain of 1 point, and a worst case of 190 / 250 = 76 percent, so a loss of 19 points;
  \<open>calculateAssignmentImpacts\<close> stores this impact for the assignment.
\<close>

theorem scenario_impact:
  "calcCurrentOverall scenarioHeap 0 scenarioMap = 95
   \<and> bestOverall scenarioHeap 0 50 scenarioMap = 96
   \<and> worstOverall scenarioHeap 0 50 scenarioMap = 76
   \<and> calculateWeightedImpact scenarioHeap 0 50 95 scenarioMap
       = \<lparr>Gain = 1, Loss = 19, IsWeighted = False\<rparr>
   \<and> impactAt 2 (calculateAssignmentImpacts scenarioGroups scenarioSubmissions 95
         (isWeightedGrading scenarioGroups) None)
       = Some \<lparr>Gain = 1, Loss = 19, IsWeighted = True\<rparr>"
  by (simp add: calculateWeightedImpact_def scenario_current scenario_best scenario_worst
        scenario_weight scenario_end_to_end)

text \<open>
  Claim C1 as the specification states it (a best case of 96.67 percent and a gain of
  about 1.67 points) does not hold: the best case is 96 and the gain is 1, more than
  half a point away from the stated values.
\<close>

theorem scenario_impact_not_as_stated:
  "\<not> (calcCurrentOverall scenarioHeap 0 scenarioMap = 95
      \<and> \<bar>bestOverall scenarioHeap 0 50 scenarioMap - 96.67\<bar> \<le> 1 / 2
      \<and> \<bar>Gain (calculateWeightedImpact scenarioHeap 0 50 95 scenarioMap) - 1.67\<bar> \<le> 1 / 2
      \<and> worstOverall scenarioHeap 0 50 scenarioMap = 76
      \<and> \<bar>Loss (calculateWeightedImpact scenarioHeap 0 50 95 scenarioMap) - 19\<bar> \<le> 1 / 2)"
  by (simp add: calculateWeightedImpact_def scenario_current scenario_best scenario_worst
        scenario_weight)

section \<open>The time buckets\<close>

lemma missing_not_upcoming:
  "\<not> (missingSelected showAll now due sub \<and> upcomingSelected tz now due)"
proof
  assume a: "missingSelected showAll now due sub \<and> upcomingSelected tz now due"
  then have le: "due \<le> now" by (simp add: missingSelected_def)
  from a have "(truncateToDay tz due = truncateToDay tz now \<and> due > now)
      \<or> truncateToDay tz due = nextSchoolDay tz (truncateToDay tz now)"
    by (simp add: upcomingSelected_def Let_def)
  with le have "truncateToDay tz due = nextSchoolDay tz (truncateToDay tz now)" by auto
  with nextSchoolDay_gt [of "truncateToDay tz now" tz] truncateToDay_mono [OF le, of tz]
  show False by linarith
qed

lemma missing_not_weekAhead:
  "\<not> (missingSelected showAll now due sub \<and> weekAheadSelected tz now due)"
proof
  assume a: "missingSelected showAll now due sub \<and> weekAheadSelected tz now due"
  then have le: "due \<le> now" by (simp add: missingSelected_def)
  from a have "AddDate (nextSchoolDay tz (truncateToDay tz now)) 1 \<le> truncateToDay tz due"
    by (simp add: weekAheadSelected_def Let_def)
  with weekStart_gt [of "truncateToDay tz now" tz] truncateToDay_mono [OF le, of tz]
  show False by linarith
qed

lemma upcoming_not_weekAhead:
  "\<not> (upcomingSelected tz now due \<and> weekAheadSelected tz now due)"
proof
  assume a: "upcomingSelected tz now due \<and> weekAheadSelected tz now due"
  then have w: "AddDate (nextSchoolDay tz (truncateToDay tz now)) 1 \<le> truncateToDay tz due"
    by (simp add: weekAheadSelected_def Let_def)
  from a have "truncateToDay tz due = truncateToDay tz now
      \<or> truncateToDay tz due = nextSchoolDay tz (truncateToDay tz now)"
    by (auto simp add: upcomingSelected_def Let_def)
  with w weekStart_gt [of "truncateToDay tz now" tz]
    AddDate_gt [of 1 "nextSchoolDay tz (truncateToDay tz now)"]
  show False by auto
qed

lemma fold_select:
  assumes "\<And>a r. step a r = (if P a then r @ [f a] else r)"
  shows "fold step as r = r @ map f (filter P as)"
  by (induction as arbitrary: r) (simp_all add: assms)

lemma missingStep_eq:
  "missingStep showAll now (now - oneMonthAgo) a r =
     (if missingSelected showAll now (DueAt a) (Submission a)
      then r @ [a\<lparr>Status := determineStatus a\<rparr>] else r)"
  by (auto simp add: missingStep_def missingSelected_def)

lemma upcomingStep_eq:
  "upcomingStep tz now (truncateToDay tz now) (nextSchoolDay tz (truncateToDay tz now)) a r =
     (if upcomingSelected tz now (DueAt a) then r @ [a] else r)"
  using nextSchoolDay_gt [of "truncateToDay tz now" tz]
  by (auto simp add: upcomingStep_def upcomingSelected_def Let_def)

lemma weekAheadStep_eq:
  "weekAheadStep tz weekStart weekEnd a r =
     (if weekStart \<le> truncateToDay tz (DueAt a) \<and> truncateToDay tz (DueAt a) \<le> weekEnd
      then r @ [a] else r)"
  by (auto simp add: weekAheadStep_def Let_def)

lemma fold_missingStep:
  "fold (missingStep showAll now (now - oneMonthAgo)) as r =
     r @ map (\<lambda>a. a\<lparr>Status := determineStatus a\<rparr>)
           (filter (\<lambda>a. missingSelected showAll now (DueAt a) (Submission a)) as)"
  by (rule fold_select) (rule missingStep_eq)

lemma fold_upcomingStep:
  "fold (upcomingStep tz now (truncateToDay tz now) (nextSchoolDay tz (truncateToDay tz now))) as r =
     r @ filter (\<lambda>a. upcomingSelected tz now (DueAt a)) as"
  using fold_select [where f = "\<lambda>a. a", OF upcomingStep_eq] by simp

lemma fold_weekAheadStep:
  "fold (weekAheadStep tz weekStart weekEnd) as r =
     r @ filter (\<lambda>a. weekStart \<le> truncateToDay tz (DueAt a)
                      \<and> truncateToDay tz (DueAt a) \<le> weekEnd) as"
  using fold_select [where f = "\<lambda>a. a", OF weekAheadStep_eq] by simp

lemma missingAssignments_eq:
  "missingAssignments showAll now as =
     sort_key DueAt (map (\<lambda>a. a\<lparr>Status := determineStatus a\<rparr>)
       (filter (\<lambda>a. missingSelected showAll now (DueAt a) (Submission a)) as))"
  by (simp add: missingAssignments_def fold_missingStep)

lemma upcomingAssignments_eq:
  "upcomingAssignments tz now as =
     sort_key DueAt (filter (\<lambda>a. upcomingSelected tz now (DueAt a)) as)"
  by (simp add: upcomingAssignments_def fold_upcomingStep)

lemma weekAheadAssignments_eq:
  "weekAheadAssignments tz now as =
     sort_key DueAt (filter (\<lambda>a. weekAheadSelected tz now (DueAt a)) as)"
proof (cases "AddDate (nextSchoolDay tz (truncateToDay tz now)) 1
                > endOfSchoolWeek tz (truncateToDay tz now)")
  case True
  then have "filter (\<lambda>a. weekAheadSelected tz now (DueAt a)) as = []"
    by (auto simp add: weekAheadSelected_def Let_def filter_empty_conv)
  with True show ?thesis by (simp add: weekAheadAssignments_def)
next
  case False
  then show ?thesis
    by (simp add: weekAheadAssignments_def fold_weekAheadStep weekAheadSelected_def Let_def)
qed

lemma set_missingAssignments:
  "set (missingAssignments showAll now as) =
     (\<lambda>a. a\<lparr>Status := determineStatus a\<rparr>) `
       {a \<in> set as. missingSelected showAll now (DueAt a) (Submission a)}"
  by (auto simp add: missingAssignments_eq)

lemma set_upcomingAssignments:
  "set (upcomingAssignments tz now as) = {a \<in> set as. upcomingSelected tz now (DueAt a)}"
  by (auto simp add: upcomingAssignments_eq)

lemma set_weekAheadAssignments:
  "set (weekAheadAssignments tz now as) = {a \<in> set as. weekAheadSelected tz now (DueAt a)}"
  by (auto simp add: weekAheadAssignments_eq)

lemma missing_upcoming_disjoint:
  "set (missingAssignments showAll now as) \<inter> set (upcomingAssignments tz now bs) = {}"
  using missing_not_upcoming
  by (auto simp add: set_missingAssignments set_upcomingAssignments)

lemma missing_weekAhead_disjoint:
  "set (missingAssignments showAll now as) \<inter> set (weekAheadAssignments tz now bs) = {}"
  using missing_not_weekAhead
  by (auto simp add: set_missingAssignments set_weekAheadAssignments)

lemma upcoming_weekAhead_disjoint:
  "set (upcomingAssignments tz now as) \<inter> set (weekAheadAssignments tz now bs) = {}"
  using upcoming_not_weekAhead
  by (auto simp add: set_upcomingAssignments set_weekAheadAssignments)

lemma formatInt_8: "formatInt (truncInt 8) = ''8''"
  by (simp add: truncInt_def formatInt_def digitsOf.simps [of 8])

text \<open>
  Claim C7, as amended. For a fixed clock reading the three buckets select an
  assignment into at most one of them. Membership in the due-today/tomorrow and the
  week-ahead bucket is a condition on the due time alone; membership in the missing
  bucket is a condition on the due time and on the submission (its missing flag, a
  zero score with a graded timestamp, the fields of the awaiting-grade test), with the
  include-older override. No bucket reads the impact, the points or the category.
\<close>

theorem buckets_exclusive:
  "set (missingAssignments showAll now as) =
     (\<lambda>a. a\<lparr>Status := determineStatus a\<rparr>) `
       {a \<in> set as. missingSelected showAll now (DueAt a) (Submission a)}
   \<and> set (upcomingAssignments tz now as) = {a \<in> set as. upcomingSelected tz now (DueAt a)}
   \<and> set (weekAheadAssignments tz now as) = {a \<in> set as. weekAheadSelected tz now (DueAt a)}
   \<and> \<not> (missingSelected showAll now due sub \<and> upcomingSelected tz now due)
   \<and> \<not> (missingSelected showAll now due sub \<and> weekAheadSelected tz now due)
   \<and> \<not> (upcomingSelected tz now due \<and> weekAheadSelected tz now due)
   \<and> set (missingAssignments showAll now as) \<inter> set (upcomingAssignments tz now as) = {}
   \<and> set (missingAssignments showAll now as) \<inter> set (weekAheadAssignments tz now as) = {}
   \<and> set (upcomingAssignments tz now as) \<inter> set (weekAheadAssignments tz now as) = {}"
  by (intro conjI set_missingAssignments set_upcomingAssignments set_weekAheadAssignments
        missing_not_upcoming missing_not_weekAhead upcoming_not_weekAhead
        missing_upcoming_disjoint missing_weekAhead_disjoint upcoming_weekAhead_disjoint)

text \<open>
  Claim C7 as stated says that membership depends on the due time and, for the missing
  bucket, on the submission's flags, never on grading data. Two overdue assignments
  with the same due time, the same flags and the same timestamps, one graded 0 and one
  graded 5, differ: the first is in the missing bucket, the second is not.
\<close>

theorem missing_depends_on_score:
  "DueAt scoredZero = DueAt scoredFive
   \<and> map_option Missing (Submission scoredZero) = map_option Missing (Submission scoredFive)
   \<and> map_option Excused (Submission scoredZero) = map_option Excused (Submission scoredFive)
   \<and> map_option GradeMatchesCurrentSubmission (Submission scoredZero)
       = map_option GradeMatchesCurrentSubmission (Submission scoredFive)
   \<and> map_option SubmittedAt (Submission scoredZero)
       = map_option SubmittedAt (Submission scoredFive)
   \<and> map_option GradedAt (Submission scoredZero) = map_option GradedAt (Submission scoredFive)
   \<and> missingAssignments False exampleNow [scoredZero]
       = [scoredZero\<lparr>Status := ''Graded 0/8''\<rparr>]
   \<and> missingAssignments False exampleNow [scoredFive] = []"
  by (simp add: scoredZero_def scoredFive_def example_defs bucket_defs formatInt_8)

text \<open>
  Claim C2, as amended. The missing classification does not read the excused flag:
  setting or clearing it leaves the selection unchanged, and an assignment with a
  submission is in the missing bucket exactly when it is due in the window, its
  submission is flagged missing or holds a zero score with a graded timestamp, and it
  does not await a grade.
\<close>

theorem missing_ignores_excused:
  "missingSelected showAll now due (Some (s\<lparr>Excused := e\<rparr>))
     = missingSelected showAll now due (Some s)
   \<and> missingSelected showAll now due (Some s)
       = (due \<le> now \<and> (showAll \<or> now - oneMonthAgo \<le> due)
          \<and> (Missing s \<or> gradedZero s) \<and> \<not> awaitingGrade (Some s))
   \<and> set (missingAssignments showAll now as) =
       (\<lambda>a. a\<lparr>Status := determineStatus a\<rparr>) `
         {a \<in> set as. missingSelected showAll now (DueAt a) (Submission a)}"
  by (simp add: set_missingAssignments)
     (simp add: missingSelected_def isMissing_def gradedZero_def awaitingGrade_def
        split: option.splits)

text \<open>
  Claim C2 as stated (an excused submission is never classified missing) does not
  hold: an overdue assignment whose submission is flagged both missing and excused is
  placed in the missing bucket, with status Missing.
\<close>

theorem excused_and_missing_is_missing:
  "map_option Excused (Submission excusedMissing) = Some True
   \<and> map_option Missing (Submission excusedMissing) = Some True
   \<and> missingAssignments False exampleNow [excusedMissing]
       = [excusedMissing\<lparr>Status := ''Missing''\<rparr>]"
  by (simp add: excusedMissing_def example_defs bucket_defs)

text \<open>
  Claim C8, as amended. An assignment whose submission has a submitted timestamp and
  a grade-matches-current-submission flag that is present and false is not placed in
  the missing bucket, whatever its status; when its due time has passed it is in
  neither of the other two buckets.
\<close>

theorem awaiting_grade_not_missing:
  assumes "Submission a = Some s"
    and "SubmittedAt s = Some t"
    and "GradeMatchesCurrentSubmission s = Some False"
  shows "a\<lparr>Status := st\<rparr> \<notin> set (missingAssignments showAll now as)
         \<and> (DueAt a \<le> now \<longrightarrow>
              a \<notin> set (upcomingAssignments tz now as)
              \<and> a \<notin> set (weekAheadAssignments tz now as))"
proof -
  have aw: "awaitingGrade (Submission a)"
    using assms by (simp add: awaitingGrade_def)
  have "a\<lparr>Status := st\<rparr> \<notin> set (missingAssignments showAll now as)"
  proof
    assume "a\<lparr>Status := st\<rparr> \<in> set (missingAssignments showAll now as)"
    then obtain b where b: "missingSelected showAll now (DueAt b) (Submission b)"
      and eq: "a\<lparr>Status := st\<rparr> = b\<lparr>Status := determineStatus b\<rparr>"
      unfolding set_missingAssignments by auto
    from eq have "Submission (a\<lparr>Status := st\<rparr>) = Submission (b\<lparr>Status := determineStatus b\<rparr>)"
      by simp
    then have "Submission b = Submission a" by simp
    with b aw show False by (simp add: missingSelected_def)
  qed
  moreover have "a \<notin> set (upcomingAssignments tz now as)
      \<and> a \<notin> set (weekAheadAssignments tz now as)" if due: "DueAt a \<le> now"
  proof -
    have up: "\<not> upcomingSelected tz now (DueAt a)"
    proof
      assume u: "upcomingSelected tz now (DueAt a)"
      then have "truncateToDay tz (DueAt a) = nextSchoolDay tz (truncateToDay tz now)"
        using due by (auto simp add: upcomingSelected_def Let_def)
      with nextSchoolDay_gt [of "truncateToDay tz now" tz] truncateToDay_mono [OF due, of tz]
      show False by linarith
    qed
    have wk: "\<not> weekAheadSelected tz now (DueAt a)"
    proof
      assume "weekAheadSelected tz now (DueAt a)"
      then have "AddDate (nextSchoolDay tz (truncateToDay tz now)) 1
          \<le> truncateToDay tz (DueAt a)"
        by (simp add: weekAheadSelected_def Let_def)
      with weekStart_gt [of "truncateToDay tz now" tz] truncateToDay_mono [OF due, of tz]
      show False by linarith
    qed
    from up wk show ?thesis
      by (simp add: set_upcomingAssignments set_weekAheadAssignments)
  qed
  ultimately show ?thesis by blast
qed

theorem awaiting_grade_not_missing_witness:
  "Submission awaitingOverdue = Some resubmitted
   \<and> SubmittedAt resubmitted = Some (exampleNow - 2 * 86400000000000)
   \<and> GradeMatchesCurrentSubmission resubmitted = Some False
   \<and> DueAt awaitingOverdue \<le> exampleNow
   \<and> awaitingOverdue\<lparr>Status := ''Missing''\<rparr>
       \<notin> set (missingAssignments False exampleNow [awaitingOverdue, exampleAssignment])
   \<and> awaitingOverdue
       \<notin> set (upcomingAssignments 0 exampleNow [awaitingOverdue, exampleAssignment])
   \<and> awaitingOverdue
       \<notin> set (weekAheadAssignments 0 exampleNow [awaitingOverdue, exampleAssignment])"
proof -
  have h1: "Submission awaitingOverdue = Some resubmitted"
    by (simp add: awaitingOverdue_def)
  have h2: "SubmittedAt resubmitted = Some (exampleNow - 2 * 86400000000000)"
    by (simp add: resubmitted_def)
  have h3: "GradeMatchesCurrentSubmission resubmitted = Some False"
    by (simp add: resubmitted_def)
  have h4: "DueAt awaitingOverdue \<le> exampleNow"
    by (simp add: awaitingOverdue_def exampleAssignment_def exampleNow_def)
  from awaiting_grade_not_missing [OF h1 h2 h3, of "''Missing''" False exampleNow
      "[awaitingOverdue, exampleAssignment]" 0] h1 h2 h3 h4
  show ?thesis by simp
qed

text \<open>
  Claim C8 as stated also says that such an assignment is shown in no other bucket.
  The other buckets do not look at the submission: one that awaits its grade and is
  due on the next day is in the due-today/tomorrow bucket.
\<close>

theorem awaiting_grade_is_upcoming:
  "Submission awaitingDueTomorrow = Some resubmitted
   \<and> SubmittedAt resubmitted = Some (exampleNow - 2 * 86400000000000)
   \<and> GradeMatchesCurrentSubmission resubmitted = Some False
   \<and> upcomingAssignments 0 exampleNow [awaitingDueTomorrow] = [awaitingDueTomorrow]"
  by (simp add: awaitingDueTomorrow_def resubmitted_def example_defs bucket_defs)

section \<open>Category states\<close>

lemma subInfoByAssignment_snoc:
  "subInfoByAssignment (subs @ [sub]) =
     (subInfoByAssignment subs)(AssignmentID sub \<mapsto> infoOf sub)"
  by (simp add: subInfoByAssignment_def)

lemma subInfoByAssignment_submissionOf:
  "subInfoByAssignment subs i = map_option infoOf (submissionOf subs i)"
proof (induction subs rule: rev_induct)
  case Nil
  show ?case by (simp add: subInfoByAssignment_def submissionOf_def)
next
  case (snoc sub subs)
  then show ?case
    by (simp add: subInfoByAssignment_snoc submissionOf_def)
qed

lemma isGraded_countsAsGraded:
  "fst (isGraded (subInfoByAssignment subs) i) =
     (case submissionOf subs i of None \<Rightarrow> False | Some sub \<Rightarrow> countsAsGraded sub)"
  by (auto simp add: isGraded_def subInfoByAssignment_submissionOf countsAsGraded_def
        infoOf_def split: option.splits)

lemma isGraded_score:
  "fst (isGraded (subInfoByAssignment subs) i) \<Longrightarrow>
     map_option Score (submissionOf subs i) = Some (Some (snd (isGraded (subInfoByAssignment subs) i)))"
  by (auto simp add: isGraded_def subInfoByAssignment_submissionOf infoOf_def
        split: option.splits if_splits)

lemma accumulate_eq:
  "accumulate infos period a st =
     (if counted infos period a
      then st\<lparr>points := points st + snd (isGraded infos (aigID a)),
              possible := possible st + pointsOf a\<rparr>
      else st)"
  by (simp add: accumulate_def counted_def pointsOf_def split: option.splits)

lemma fold_accumulate:
  "fold (accumulate infos period) as st =
     st\<lparr>points := points st
            + sum_list (map (\<lambda>a. snd (isGraded infos (aigID a))) (filter (counted infos period) as)),
        possible := possible st
            + sum_list (map pointsOf (filter (counted infos period) as))\<rparr>"
  by (induction as arbitrary: st) (simp_all add: accumulate_eq add.assoc)

lemma groupState_eq:
  "groupState infos period grp =
     \<lparr>points = sum_list (map (\<lambda>a. snd (isGraded infos (aigID a)))
                  (filter (counted infos period) (Assignments grp))),
      possible = sum_list (map pointsOf (filter (counted infos period) (Assignments grp))),
      weight = GroupWeight grp\<rparr>"
  by (simp add: groupState_def fold_accumulate)

lemma buildStep_simp:
  "buildStep infos period grp (m, h, n) =
     (AList.update (grpID grp) n m, h(n := groupState infos period grp), Suc n)"
  by (simp add: buildStep_def)

lemma build_next:
  "snd (snd (fold (buildStep infos period) gs (m, h, n))) = n + length gs"
  by (induction gs arbitrary: m h n) (simp_all add: buildStep_simp)

lemma build_heap_old:
  "p < n \<Longrightarrow> fst (snd (fold (buildStep infos period) gs (m, h, n))) p = h p"
  by (induction gs arbitrary: m h n) (simp_all add: buildStep_simp)

lemma build_map_other:
  "k \<notin> grpID ` set gs \<Longrightarrow>
     map_of (fst (fold (buildStep infos period) gs (m, h, n))) k = map_of m k"
  by (induction gs arbitrary: m h n) (simp_all add: buildStep_simp update_conv')

lemma build_map_defined:
  "map_of m k \<noteq> None \<or> k \<in> grpID ` set gs \<Longrightarrow>
     map_of (fst (fold (buildStep infos period) gs (m, h, n))) k \<noteq> None"
proof (induction gs arbitrary: m h n)
  case Nil
  then show ?case by simp
next
  case (Cons g gs)
  have "map_of (AList.update (grpID g) n m) k \<noteq> None \<or> k \<in> grpID ` set gs"
    using Cons.prems by (auto simp add: update_conv')
  from Cons.IH [OF this] show ?case by (simp add: buildStep_simp)
qed

lemma build_state:
  assumes "distinct (map grpID gs)" and "g \<in> set gs"
  shows "\<exists>p. map_of (fst (fold (buildStep infos period) gs (m, h, n))) (grpID g) = Some p
           \<and> fst (snd (fold (buildStep infos period) gs (m, h, n))) p
               = groupState infos period g"
  using assms
proof (induction gs arbitrary: m h n)
  case Nil
  then show ?case by simp
next
  case (Cons x gs)
  show ?case
  proof (cases "g = x")
    case True
    then have notin: "grpID g \<notin> grpID ` set gs" using Cons.prems by auto
    have "map_of (fst (fold (buildStep infos period) gs
            (AList.update (grpID x) n m, h(n := groupState infos period x), Suc n))) (grpID g)
          = Some n"
      using build_map_other [OF notin] True by (simp add: update_conv')
    moreover have "fst (snd (fold (buildStep infos period) gs
            (AList.update (grpID x) n m, h(n := groupState infos period x), Suc n))) n
          = groupState infos period g"
      using build_heap_old [of n "Suc n"] True by simp
    ultimately show ?thesis by (simp add: buildStep_simp)
  next
    case False
    then have "g \<in> set gs" "distinct (map grpID gs)" using Cons.prems by auto
    from Cons.IH [OF this(2) this(1)] show ?thesis by (simp add: buildStep_simp)
  qed
qed

lemma buildStates_state:
  assumes "distinct (map grpID groups)" and "g \<in> set groups"
  shows "\<exists>p. map_of (fst (buildStates infos period groups)) (grpID g) = Some p
           \<and> fst (snd (buildStates infos period groups)) p = groupState infos period g"
  unfolding buildStates_def using build_state [OF assms] by blast

lemma buildStates_defined:
  "g \<in> set groups \<Longrightarrow> map_of (fst (buildStates infos period groups)) (grpID g) \<noteq> None"
  unfolding buildStates_def by (rule build_map_defined) simp

section \<open>The impact loop\<close>

lemma impactStep_None [simp]:
  "impactStep infos period weighted cur h cs tot g a None = None"
  by (simp add: impactStep_def)

lemma impactStep_not_eligible:
  "\<not> eligible infos period a \<Longrightarrow>
     impactStep infos period weighted cur h cs tot g a (Some imp) = Some imp"
  by (auto simp add: impactStep_def eligible_def Let_def split: option.splits)

lemma impactStep_eligible:
  "eligible infos period a \<Longrightarrow> map_of cs (grpID g) = Some p \<Longrightarrow>
     impactStep infos period weighted cur h cs tot g a (Some imp) =
       Some (imp(aigID a \<mapsto> impactOf infos weighted cur h cs tot p a))"
  by (auto simp add: impactStep_def eligible_def impactOf_def pointsOf_def Let_def
        split: option.splits)

lemma impactStep_frame:
  assumes "map_of cs (grpID g) \<noteq> None"
  shows "\<exists>imp'. impactStep infos period weighted cur h cs tot g a (Some imp) = Some imp'
           \<and> (\<forall>i. i \<noteq> aigID a \<longrightarrow> imp' i = imp i)"
proof (cases "eligible infos period a")
  case True
  from assms obtain p where "map_of cs (grpID g) = Some p" by auto
  from impactStep_eligible [OF True this] show ?thesis by simp
next
  case False
  then show ?thesis by (simp add: impactStep_not_eligible)
qed

lemma impactLoop_flat:
  "impactLoop infos period weighted cur h cs tot groups r =
     fold (\<lambda>ga. impactStep infos period weighted cur h cs tot (fst ga) (snd ga))
       (groupPairs groups) r"
proof -
  have inner: "fold (\<lambda>ga. f (fst ga) (snd ga)) (map (Pair g) as) r' = fold (f g) as r'"
    for f :: "AssignmentGroup \<Rightarrow> AssignmentInGroup \<Rightarrow> 'b \<Rightarrow> 'b" and g as r'
    by (induction as arbitrary: r') simp_all
  show ?thesis
    unfolding impactLoop_def groupPairs_def
    by (induction groups arbitrary: r) (simp_all add: inner)
qed

lemma ids_groupPairs: "map (\<lambda>ga. aigID (snd ga)) (groupPairs groups) = assignmentIDs groups"
  by (simp add: groupPairs_def assignmentIDs_def map_concat comp_def)

lemma set_groupPairs: "set (groupPairs groups) = {(g, a). g \<in> set groups \<and> a \<in> set (Assignments g)}"
  by (auto simp add: groupPairs_def)

lemma loop_frame:
  assumes "\<forall>ga \<in> set ps. map_of cs (grpID (fst ga)) \<noteq> None"
  shows "\<exists>imp'. fold (\<lambda>ga. impactStep infos period weighted cur h cs tot (fst ga) (snd ga))
                  ps (Some imp) = Some imp'
           \<and> (\<forall>i. i \<notin> set (map (\<lambda>ga. aigID (snd ga)) ps) \<longrightarrow> imp' i = imp i)"
  using assms
proof (induction ps arbitrary: imp)
  case Nil
  show ?case by simp
next
  case (Cons x ps)
  from Cons.prems have "map_of cs (grpID (fst x)) \<noteq> None" by simp
  from impactStep_frame [OF this, of infos period weighted cur h tot "snd x" imp]
  obtain imp1 where s1: "impactStep infos period weighted cur h cs tot (fst x) (snd x) (Some imp)
        = Some imp1" and f1: "\<forall>i. i \<noteq> aigID (snd x) \<longrightarrow> imp1 i = imp i"
    by blast
  from Cons.prems have "\<forall>ga \<in> set ps. map_of cs (grpID (fst ga)) \<noteq> None" by simp
  from Cons.IH [OF this, of imp1] obtain imp' where
    s2: "fold (\<lambda>ga. impactStep infos period weighted cur h cs tot (fst ga) (snd ga)) ps (Some imp1)
          = Some imp'"
    and f2: "\<forall>i. i \<notin> set (map (\<lambda>ga. aigID (snd ga)) ps) \<longrightarrow> imp' i = imp1 i"
    by blast
  from s1 s2 f1 f2 show ?case by auto
qed

lemma loop_target:
  assumes "\<forall>ga \<in> set ps. map_of cs (grpID (fst ga)) \<noteq> None"
    and "distinct (map (\<lambda>ga. aigID (snd ga)) ps)"
    and "(g, a) \<in> set ps"
    and "eligible infos period a"
    and "map_of cs (grpID g) = Some p"
  shows "\<exists>imp'. fold (\<lambda>ga. impactStep infos period weighted cur h cs tot (fst ga) (snd ga))
                  ps (Some imp) = Some imp'
           \<and> imp' (aigID a) = Some (impactOf infos weighted cur h cs tot p a)"
  using assms(1-3)
proof (induction ps arbitrary: imp)
  case Nil
  then show ?case by simp
next
  case (Cons x ps)
  have rest: "\<forall>ga \<in> set ps. map_of cs (grpID (fst ga)) \<noteq> None" using Cons.prems by simp
  show ?case
  proof (cases "x = (g, a)")
    case True
    have notin: "aigID a \<notin> set (map (\<lambda>ga. aigID (snd ga)) ps)"
      using Cons.prems(2) True by simp
    from loop_frame [OF rest, of infos period weighted cur h tot
        "imp(aigID a \<mapsto> impactOf infos weighted cur h cs tot p a)"]
    obtain imp' where
      "fold (\<lambda>ga. impactStep infos period weighted cur h cs tot (fst ga) (snd ga)) ps
         (Some (imp(aigID a \<mapsto> impactOf infos weighted cur h cs tot p a))) = Some imp'"
      and "\<forall>i. i \<notin> set (map (\<lambda>ga. aigID (snd ga)) ps) \<longrightarrow>
             imp' i = (imp(aigID a \<mapsto> impactOf infos weighted cur h cs tot p a)) i"
      by blast
    with notin True impactStep_eligible [OF assms(4) assms(5)] show ?thesis by simp
  next
    case False
    then have mem: "(g, a) \<in> set ps" using Cons.prems(3) by simp
    have dist: "distinct (map (\<lambda>ga. aigID (snd ga)) ps)" using Cons.prems(2) by simp
    from Cons.prems(1) have "map_of cs (grpID (fst x)) \<noteq> None" by simp
    from impactStep_frame [OF this, of infos period weighted cur h tot "snd x" imp]
    obtain imp1 where s1: "impactStep infos period weighted cur h cs tot (fst x) (snd x)
          (Some imp) = Some imp1"
      by blast
    from Cons.IH [OF rest dist mem, of imp1] s1 show ?thesis by simp
  qed
qed

lemma calculateAssignmentImpacts_total:
  "\<exists>impacts. calculateAssignmentImpacts groups subs cur weighted period = Some impacts"
proof -
  have "\<forall>ga \<in> set (groupPairs groups).
          map_of (fst (buildStates (subInfoByAssignment subs) period groups)) (grpID (fst ga)) \<noteq> None"
    using buildStates_defined by (fastforce simp add: set_groupPairs)
  from loop_frame [OF this] show ?thesis
    unfolding calculateAssignmentImpacts_def Let_def impactLoop_flat by blast
qed

lemma calculateAssignmentImpacts_target:
  assumes "distinct (map grpID groups)"
    and "distinct (assignmentIDs groups)"
    and "g \<in> set groups"
    and "a \<in> set (Assignments g)"
    and "eligible (subInfoByAssignment subs) period a"
  shows "\<exists>impacts p.
           calculateAssignmentImpacts groups subs cur weighted period = Some impacts
           \<and> map_of (fst (buildStates (subInfoByAssignment subs) period groups)) (grpID g) = Some p
           \<and> fst (snd (buildStates (subInfoByAssignment subs) period groups)) p
               = groupState (subInfoByAssignment subs) period g
           \<and> impacts (aigID a) =
               Some (impactOf (subInfoByAssignment subs) weighted cur
                 (fst (snd (buildStates (subInfoByAssignment subs) period groups)))
                 (fst (buildStates (subInfoByAssignment subs) period groups))
                 (totals weighted
                   (fst (snd (buildStates (subInfoByAssignment subs) period groups)))
                   (fst (buildStates (subInfoByAssignment subs) period groups)))
                 p a)"
proof -
  let ?infos = "subInfoByAssignment subs"
  let ?b = "buildStates ?infos period groups"
  from buildStates_state [OF assms(1) assms(3), of ?infos period]
  obtain p where p: "map_of (fst ?b) (grpID g) = Some p"
    and hp: "fst (snd ?b) p = groupState ?infos period g" by blast
  have def: "\<forall>ga \<in> set (groupPairs groups). map_of (fst ?b) (grpID (fst ga)) \<noteq> None"
    using buildStates_defined by (fastforce simp add: set_groupPairs)
  have dist: "distinct (map (\<lambda>ga. aigID (snd ga)) (groupPairs groups))"
    using assms(2) by (simp add: ids_groupPairs)
  have mem: "(g, a) \<in> set (groupPairs groups)"
    using assms(3,4) by (simp add: set_groupPairs)
  from loop_target [OF def dist mem assms(5) p, of weighted cur "fst (snd ?b)"
      "totals weighted (fst (snd ?b)) (fst ?b)" Map.empty]
  show ?thesis
    unfolding calculateAssignmentImpacts_def Let_def impactLoop_flat using p hp by blast
qed

section \<open>Graded assignments and weight-0 categories\<close>

text \<open>
  Claim C3. In the accumulation of the category states an assignment counts as graded
  exactly when its submission has a score and is not flagged missing, or is flagged
  missing with a non-zero score, or is flagged missing with a zero score and a graded
  timestamp; the score returned is the recorded one; a missing-flagged zero score with
  no graded timestamp is not counted; and a group's state holds the sum of the scores
  and the sum of the points possible of its counted assignments.
\<close>

theorem graded_iff_counts:
  "fst (isGraded (subInfoByAssignment subs) i) =
     (case submissionOf subs i of None \<Rightarrow> False | Some sub \<Rightarrow> countsAsGraded sub)
   \<and> (fst (isGraded (subInfoByAssignment subs) i) \<longrightarrow>
        map_option Score (submissionOf subs i)
          = Some (Some (snd (isGraded (subInfoByAssignment subs) i))))
   \<and> (Missing sub \<and> Score sub = Some 0 \<and> GradedAt sub = None \<longrightarrow> \<not> countsAsGraded sub)
   \<and> groupState (subInfoByAssignment subs) period grp =
       \<lparr>points = sum_list (map (\<lambda>a. snd (isGraded (subInfoByAssignment subs) (aigID a)))
                    (filter (counted (subInfoByAssignment subs) period) (Assignments grp))),
        possible = sum_list (map pointsOf
                    (filter (counted (subInfoByAssignment subs) period) (Assignments grp))),
        weight = GroupWeight grp\<rparr>"
  using isGraded_countsAsGraded [of subs i] isGraded_score [of subs i]
    groupState_eq [of "subInfoByAssignment subs" period grp]
  by (simp add: countsAsGraded_def notNil_def)

theorem graded_iff_counts_witness:
  "fst (isGraded (subInfoByAssignment courseSubmissions) 12)
   \<and> map_option Score (submissionOf courseSubmissions 12) = Some (Some 9)
   \<and> snd (isGraded (subInfoByAssignment courseSubmissions) 12) = 9
   \<and> \<not> fst (isGraded (subInfoByAssignment courseSubmissions) 11)
   \<and> Missing (exampleSubmission\<lparr>Missing := True, Score := Some 0\<rparr>)
   \<and> \<not> countsAsGraded (exampleSubmission\<lparr>Missing := True, Score := Some 0\<rparr>)
   \<and> groupState (subInfoByAssignment courseSubmissions) (Some examplePeriod) practiceGroup
       = \<lparr>points = 9, possible = 10, weight = 0\<rparr>"
  using graded_iff_counts [of courseSubmissions 12
      "exampleSubmission\<lparr>Missing := True, Score := Some 0\<rparr>" "Some examplePeriod" practiceGroup]
    graded_iff_counts [of courseSubmissions 11]
  by (simp add: submissionOf_def countsAsGraded_def counted_def pointsOf_def isGraded_def
        subInfoByAssignment_def infoOf_def notNil_def assignmentInPeriod_def course_defs)

text \<open>
  Claim C5, as amended. In a weighted course (the weighted calculators are used), every
  eligible assignment whose group has weight 0 gets the impact of gain 0 and loss 0,
  whether it is ungraded or graded zero. Group ids and assignment ids are distinct, as
  Canvas ids are.
\<close>

theorem zero_weight_category_no_impact:
  assumes "weighted"
    and "distinct (map grpID groups)"
    and "distinct (assignmentIDs groups)"
    and "g \<in> set groups"
    and "GroupWeight g = 0"
    and "a \<in> set (Assignments g)"
    and "eligible (subInfoByAssignment subs) period a"
  shows "impactAt (aigID a) (calculateAssignmentImpacts groups subs cur weighted period)
           = Some \<lparr>Gain = 0, Loss = 0, IsWeighted = True\<rparr>"
proof -
  let ?infos = "subInfoByAssignment subs"
  let ?b = "buildStates ?infos period groups"
  from calculateAssignmentImpacts_target [OF assms(2,3,4,6,7), of cur weighted]
  obtain impacts p where
    r: "calculateAssignmentImpacts groups subs cur weighted period = Some impacts"
    and hp: "fst (snd ?b) p = groupState ?infos period g"
    and v: "impacts (aigID a) =
        Some (impactOf ?infos weighted cur (fst (snd ?b)) (fst ?b)
               (totals weighted (fst (snd ?b)) (fst ?b)) p a)"
    by blast
  have "weight (fst (snd ?b) p) = 0"
    using hp assms(5) by (simp add: groupState_eq)
  then have "impactOf ?infos weighted cur (fst (snd ?b)) (fst ?b)
               (totals weighted (fst (snd ?b)) (fst ?b)) p a
             = \<lparr>Gain = 0, Loss = 0, IsWeighted = True\<rparr>"
    using assms(1)
    by (simp add: impactOf_def calculateWeightedImpact_def calculateGradedZeroWeightedImpact_def)
  with r v show ?thesis by (simp add: impactAt_def)
qed

theorem zero_weight_category_no_impact_witness:
  "distinct (map grpID [practiceGroup, testsGroup])
   \<and> distinct (assignmentIDs [practiceGroup, testsGroup])
   \<and> GroupWeight practiceGroup = 0
   \<and> warmUp \<in> set (Assignments practiceGroup)
   \<and> eligible (subInfoByAssignment courseSubmissions) (Some examplePeriod) warmUp
   \<and> impactAt 11 (calculateAssignmentImpacts [practiceGroup, testsGroup] courseSubmissions 0
         (isWeightedGrading [practiceGroup, testsGroup]) (Some examplePeriod))
       = Some \<lparr>Gain = 0, Loss = 0, IsWeighted = True\<rparr>"
proof -
  have w: "isWeightedGrading [practiceGroup, testsGroup]"
    by (simp add: isWeightedGrading_def course_defs)
  have h2: "distinct (map grpID [practiceGroup, testsGroup])"
    by (simp add: course_defs)
  have h3: "distinct (assignmentIDs [practiceGroup, testsGroup])"
    by (simp add: assignmentIDs_def course_defs)
  have h4: "practiceGroup \<in> set [practiceGroup, testsGroup]" by simp
  have h5: "GroupWeight practiceGroup = 0" by (simp add: course_defs)
  have h6: "warmUp \<in> set (Assignments practiceGroup)" by (simp add: practiceGroup_def)
  have h7: "eligible (subInfoByAssignment courseSubmissions) (Some examplePeriod) warmUp"
    by (simp add: eligible_def isGraded_def subInfoByAssignment_def infoOf_def
          assignmentInPeriod_def course_defs)
  have id: "aigID warmUp = 11" by (simp add: warmUp_def)
  from zero_weight_category_no_impact [OF w h2 h3 h4 h5 h6 h7, of 0] h2 h3 h5 h6 h7 id
  show ?thesis by simp
qed

text \<open>
  Claim C5 as stated also covers unweighted courses. There the flat calculator is used
  and the weight is not read: in a course whose only group has weight 0, with 9 of 10
  points graded, an open assignment of 10 points has a gain of 5 and a loss of 45.
\<close>

theorem zero_weight_unweighted_course_impact:
  "GroupWeight practiceGroup = 0
   \<and> isWeightedGrading [practiceGroup] = False
   \<and> impactAt 11 (calculateAssignmentImpacts [practiceGroup] courseSubmissions 0
         (isWeightedGrading [practiceGroup]) (Some examplePeriod))
       = Some \<lparr>Gain = 5, Loss = 45, IsWeighted = False\<rparr>"
  by (simp add: isWeightedGrading_def impact_defs course_defs)

section \<open>Assignments graded zero\<close>

lemma graded_zero_calculators:
  "Loss (calculateGradedZeroWeightedImpact h c pts cur cs) = 0
   \<and> Loss (calculateGradedZeroNonWeightedImpact tp tposs pts cur) = 0
   \<and> Gain (calculateGradedZeroNonWeightedImpact tp tposs pts cur)
       = pct (tp + pts) tposs - pct tp tposs
   \<and> Gain (calculateGradedZeroWeightedImpact h c pts cur cs)
       = (if weight (h c) = 0 then 0
          else gzOverall h c cs (points (h c) + pts) (possible (h c))
               - gzOverall h c cs (points (h c)) (possible (h c)))"
  by (simp add: calculateGradedZeroWeightedImpact_def calculateGradedZeroNonWeightedImpact_def
        Let_def)

text \<open>
  Claim C4. An eligible assignment that is graded exactly zero gets an impact with
  loss 0, in the weighted and in the unweighted calculator, and its gain is the overall
  percentage with the assignment's points added to the numerator of its category (or
  of the flat totals) and the denominator unchanged, minus the current one. Group ids
  and assignment ids are distinct, as Canvas ids are.
\<close>

theorem graded_zero_impact:
  assumes "distinct (map grpID groups)"
    and "distinct (assignmentIDs groups)"
    and "g \<in> set groups"
    and "a \<in> set (Assignments g)"
    and "aigPointsPossible a = Some pts"
    and "pts \<noteq> 0"
    and "assignmentInPeriod a period"
    and "isGraded (subInfoByAssignment subs) (aigID a) = (True, 0)"
  shows "\<exists>p imp.
           map_of (builtStates groups subs period) (grpID g) = Some p
           \<and> builtHeap groups subs period p = groupState (subInfoByAssignment subs) period g
           \<and> impactAt (aigID a) (calculateAssignmentImpacts groups subs cur weighted period)
               = Some imp
           \<and> Loss imp = 0
           \<and> IsWeighted imp = weighted
           \<and> Gain imp =
               (if weighted
                then (if weight (builtHeap groups subs period p) = 0 then 0
                      else gzOverall (builtHeap groups subs period) p
                             (builtStates groups subs period)
                             (points (builtHeap groups subs period p) + pts)
                             (possible (builtHeap groups subs period p))
                           - gzOverall (builtHeap groups subs period) p
                               (builtStates groups subs period)
                               (points (builtHeap groups subs period p))
                               (possible (builtHeap groups subs period p)))
                else pct (fst (builtTotals weighted groups subs period) + pts)
                         (snd (builtTotals weighted groups subs period))
                     - pct (fst (builtTotals weighted groups subs period))
                         (snd (builtTotals weighted groups subs period)))"
proof -
  have el: "eligible (subInfoByAssignment subs) period a"
    using assms(5-8) by (simp add: eligible_def)
  have pts: "pointsOf a = pts" using assms(5) by (simp add: pointsOf_def)
  from calculateAssignmentImpacts_target [OF assms(1-4) el, of cur weighted]
  obtain impacts p where
    r: "calculateAssignmentImpacts groups subs cur weighted period = Some impacts"
    and p: "map_of (builtStates groups subs period) (grpID g) = Some p"
    and hp: "builtHeap groups subs period p = groupState (subInfoByAssignment subs) period g"
    and v: "impacts (aigID a) =
        Some (impactOf (subInfoByAssignment subs) weighted cur (builtHeap groups subs period)
               (builtStates groups subs period) (builtTotals weighted groups subs period) p a)"
    unfolding builtStates_def builtHeap_def builtTotals_def by blast
  let ?imp = "impactOf (subInfoByAssignment subs) weighted cur (builtHeap groups subs period)
               (builtStates groups subs period) (builtTotals weighted groups subs period) p a"
  have "impactAt (aigID a) (calculateAssignmentImpacts groups subs cur weighted period)
          = Some ?imp"
    using r v by (simp add: impactAt_def)
  moreover have "Loss ?imp = 0" "IsWeighted ?imp = weighted"
    using assms(8) by (simp_all add: impactOf_def graded_zero_calculators)
  moreover have "Gain ?imp =
      (if weighted
       then (if weight (builtHeap groups subs period p) = 0 then 0
             else gzOverall (builtHeap groups subs period) p (builtStates groups subs period)
                    (points (builtHeap groups subs period p) + pts)
                    (possible (builtHeap groups subs period p))
                  - gzOverall (builtHeap groups subs period) p (builtStates groups subs period)
                      (points (builtHeap groups subs period p))
                      (possible (builtHeap groups subs period p)))
       else pct (fst (builtTotals weighted groups subs period) + pts)
                (snd (builtTotals weighted groups subs period))
            - pct (fst (builtTotals weighted groups subs period))
                (snd (builtTotals weighted groups subs period)))"
    using assms(8) pts by (simp add: impactOf_def graded_zero_calculators)
  ultimately show ?thesis using p hp by blast
qed

theorem graded_zero_impact_witness:
  "distinct (map grpID [practiceGroup, testsGroup])
   \<and> distinct (assignmentIDs [practiceGroup, testsGroup])
   \<and> quiz \<in> set (Assignments testsGroup)
   \<and> aigPointsPossible quiz = Some 20
   \<and> assignmentInPeriod quiz (Some examplePeriod)
   \<and> isGraded (subInfoByAssignment courseSubmissions) (aigID quiz) = (True, 0)
   \<and> impactAt (aigID quiz) (calculateAssignmentImpacts [practiceGroup, testsGroup]
         courseSubmissions 0 True (Some examplePeriod))
       = Some \<lparr>Gain = 100, Loss = 0, IsWeighted = True\<rparr>
   \<and> impactAt (aigID quiz) (calculateAssignmentImpacts [practiceGroup, testsGroup]
         courseSubmissions 0 False (Some examplePeriod))
       = Some \<lparr>Gain = 200 / 3, Loss = 0, IsWeighted = False\<rparr>"
proof -
  have h1: "distinct (map grpID [practiceGroup, testsGroup])"
    by (simp add: course_defs)
  have h2: "distinct (assignmentIDs [practiceGroup, testsGroup])"
    by (simp add: assignmentIDs_def course_defs)
  have h3: "testsGroup \<in> set [practiceGroup, testsGroup]" by simp
  have h4: "quiz \<in> set (Assignments testsGroup)" by (simp add: testsGroup_def)
  have h5: "aigPointsPossible quiz = Some 20" by (simp add: quiz_def)
  have h6: "(20::real) \<noteq> 0" by simp
  have h7: "assignmentInPeriod quiz (Some examplePeriod)"
    by (simp add: assignmentInPeriod_def course_defs)
  have h8: "isGraded (subInfoByAssignment courseSubmissions) (aigID quiz) = (True, 0)"
    by (simp add: isGraded_def subInfoByAssignment_def infoOf_def notNil_def course_defs)
  have e1: "impactAt (aigID quiz) (calculateAssignmentImpacts [practiceGroup, testsGroup]
         courseSubmissions 0 True (Some examplePeriod))
       = Some \<lparr>Gain = 100, Loss = 0, IsWeighted = True\<rparr>"
    by (simp add: impact_defs course_defs)
  have e2: "impactAt (aigID quiz) (calculateAssignmentImpacts [practiceGroup, testsGroup]
         courseSubmissions 0 False (Some examplePeriod))
       = Some \<lparr>Gain = 200 / 3, Loss = 0, IsWeighted = False\<rparr>"
    by (simp add: impact_defs course_defs)
  from graded_zero_impact [OF h1 h2 h3 h4 h5 h6 h7 h8, of 0 True]
    graded_zero_impact [OF h1 h2 h3 h4 h5 h6 h7 h8, of 0 False]
    h1 h2 h4 h5 h7 h8 e1 e2
  show ?thesis by simp
qed

section \<open>Assignments without a due date\<close>

lemma fold_enrichStep_filter:
  "fold (enrichStep courseName categories subs impacts) raws r =
     fold (enrichStep courseName categories subs impacts)
       (filter (\<lambda>a. notNil (asgDueAt a)) raws) r"
  by (induction raws arbitrary: r) (simp_all add: enrichStep_def notNil_def split: option.splits)

lemma fold_enrichStep_none:
  "list_all (\<lambda>a. asgDueAt a = None) raws \<Longrightarrow>
     fold (enrichStep courseName categories subs impacts) raws r = r"
  by (induction raws arbitrary: r) (simp_all add: enrichStep_def)

lemma fetchCourseAssignments_filter:
  "fetchCourseAssignments course raws subs groups cur period =
     fetchCourseAssignments course (filter (\<lambda>a. notNil (asgDueAt a)) raws) subs groups cur period"
  unfolding fetchCourseAssignments_def Let_def
  by (simp add: fold_enrichStep_filter [symmetric] split: option.splits)

lemma fetchCourseAssignments_none:
  assumes "list_all (\<lambda>a. asgDueAt a = None) raws"
  shows "fetchCourseAssignments course raws subs groups cur period = Some []"
proof -
  obtain impacts where
    "calculateAssignmentImpacts groups subs cur (isWeightedGrading groups) period = Some impacts"
    using calculateAssignmentImpacts_total by blast
  then show ?thesis
    unfolding fetchCourseAssignments_def Let_def
    by (simp add: fold_enrichStep_none [OF assms])
qed

text \<open>
  Claim C9, as amended. An assignment with no due date yields no enriched assignment:
  the enriched list of a course, from which the three buckets are taken and on which
  the impacts are shown, is the one of the assignments that have a due date. The impact
  calculation itself treats an assignment without a due date as inside the period.
\<close>

theorem no_due_date_not_enriched:
  "fetchCourseAssignments course raws subs groups cur period =
     fetchCourseAssignments course (filter (\<lambda>a. notNil (asgDueAt a)) raws) subs groups cur period
   \<and> (list_all (\<lambda>a. asgDueAt a = None) raws \<longrightarrow>
        fetchCourseAssignments course raws subs groups cur period = Some [])
   \<and> (asgDueAt a = None \<longrightarrow> enrichStep courseName categories subsByID impacts a result = result)
   \<and> (aigDueAt b = None \<longrightarrow> assignmentInPeriod b period)"
  using fetchCourseAssignments_filter [of course raws subs groups cur period]
    fetchCourseAssignments_none [of raws course subs groups cur period]
  by (simp add: enrichStep_def assignmentInPeriod_def split: option.splits)

theorem no_due_date_not_enriched_witness:
  "filter (\<lambda>a. notNil (asgDueAt a)) courseAssignments
     = [\<lparr>asgID = 22, asgName = ''Exam'', asgDueAt = Some (exampleNow + 86400000000000),
         asgPointsPossible = Some 50\<rparr>]
   \<and> fetchCourseAssignments ''Math'' courseAssignments courseSubmissions
        [practiceGroup, testsGroup] 0 (Some examplePeriod)
       = Some [\<lparr>Name = ''Exam'', CourseName = ''Math'', CategoryName = ''Tests'',
                 DueAt = exampleNow + 86400000000000, PointsPossible = Some 50,
                 Submission = None, Status = [],
                 Impact = Some \<lparr>Gain = 500 / 7, Loss = 0, IsWeighted = True\<rparr>\<rparr>]
   \<and> fetchCourseAssignments ''Math'' [hd courseAssignments] courseSubmissions
        [practiceGroup, testsGroup] 0 (Some examplePeriod) = Some []
   \<and> aigDueAt warmUp = None
   \<and> assignmentInPeriod warmUp (Some examplePeriod)"
proof -
  have f: "filter (\<lambda>a. notNil (asgDueAt a)) courseAssignments
     = [\<lparr>asgID = 22, asgName = ''Exam'', asgDueAt = Some (exampleNow + 86400000000000),
         asgPointsPossible = Some 50\<rparr>]"
    by (simp add: courseAssignments_def notNil_def)
  have a: "list_all (\<lambda>a. asgDueAt a = None) [hd courseAssignments]"
    by (simp add: courseAssignments_def)
  have d: "aigDueAt warmUp = None" by (simp add: warmUp_def)
  have e: "fetchCourseAssignments ''Math''
        [\<lparr>asgID = 22, asgName = ''Exam'', asgDueAt = Some (exampleNow + 86400000000000),
          asgPointsPossible = Some 50\<rparr>] courseSubmissions
        [practiceGroup, testsGroup] 0 (Some examplePeriod)
       = Some [\<lparr>Name = ''Exam'', CourseName = ''Math'', CategoryName = ''Tests'',
                 DueAt = exampleNow + 86400000000000, PointsPossible = Some 50,
                 Submission = None, Status = [],
                 Impact = Some \<lparr>Gain = 500 / 7, Loss = 0, IsWeighted = True\<rparr>\<rparr>]"
    by (simp add: fetchCourseAssignments_def enrichStep_def isWeightedGrading_def
          categoryByAssignment_def submissionsByID_def impact_defs course_defs)
  have c1: "fetchCourseAssignments ''Math'' courseAssignments courseSubmissions
        [practiceGroup, testsGroup] 0 (Some examplePeriod)
       = Some [\<lparr>Name = ''Exam'', CourseName = ''Math'', CategoryName = ''Tests'',
                 DueAt = exampleNow + 86400000000000, PointsPossible = Some 50,
                 Submission = None, Status = [],
                 Impact = Some \<lparr>Gain = 500 / 7, Loss = 0, IsWeighted = True\<rparr>\<rparr>]"
    by (subst no_due_date_not_enriched [THEN conjunct1]) (simp only: f e)
  have c2: "fetchCourseAssignments ''Math'' [hd courseAssignments] courseSubmissions
        [practiceGroup, testsGroup] 0 (Some examplePeriod) = Some []"
    using no_due_date_not_enriched [where raws = "[hd courseAssignments]",
        THEN conjunct2, THEN conjunct1] a
    by blast
  have c3: "assignmentInPeriod warmUp (Some examplePeriod)"
    using no_due_date_not_enriched [where b = warmUp,
        THEN conjunct2, THEN conjunct2, THEN conjunct2] d
    by blast
  from f c1 c2 d c3 show ?thesis by (simp only: simp_thms)
qed

text \<open>
  Claim C9 as stated says that an assignment with no due date takes part in no part of
  the impact calculation. The warm-up has no due date and the period has both
  dates, yet an impact is computed for it; and a graded worksheet without a due date
  counts in the totals from which the impact of the exam is computed (gain 25/3 and
  loss 75 with it, gain 100 and loss 0 without it).
\<close>

theorem no_due_date_gets_impact:
  "aigDueAt warmUp = None
   \<and> warmUp \<in> set (Assignments practiceGroup)
   \<and> impactAt (aigID warmUp) (calculateAssignmentImpacts [practiceGroup] courseSubmissions 0
         False (Some examplePeriod))
       = Some \<lparr>Gain = 5, Loss = 45, IsWeighted = False\<rparr>
   \<and> impactAt (aigID worksheet) (calculateAssignmentImpacts
         [practiceGroup\<lparr>Assignments := [worksheet\<lparr>aigDueAt := None\<rparr>, exam]\<rparr>]
         courseSubmissions 0 False (Some examplePeriod)) = None
   \<and> impactAt (aigID exam) (calculateAssignmentImpacts
         [practiceGroup\<lparr>Assignments := [worksheet\<lparr>aigDueAt := None\<rparr>, exam]\<rparr>]
         courseSubmissions 0 False (Some examplePeriod))
       = Some \<lparr>Gain = 25 / 3, Loss = 75, IsWeighted = False\<rparr>
   \<and> impactAt (aigID exam) (calculateAssignmentImpacts
         [practiceGroup\<lparr>Assignments := [exam]\<rparr>]
         courseSubmissions 0 False (Some examplePeriod))
       = Some \<lparr>Gain = 100, Loss = 0, IsWeighted = False\<rparr>"
  by (simp add: impact_defs course_defs)

section \<open>The weighted average as sums\<close>

lemma othersWeighted_Cons:
  "othersWeighted h c (e # cs) =
     (if snd e \<noteq> c \<and> possible (h (snd e)) > 0
      then points (h (snd e)) / possible (h (snd e)) * 100 * weight (h (snd e)) else 0)
     + othersWeighted h c cs"
  by (simp add: othersWeighted_def)

lemma othersWeight_Cons:
  "othersWeight h c (e # cs) =
     (if snd e \<noteq> c \<and> possible (h (snd e)) > 0 then weight (h (snd e)) else 0)
     + othersWeight h c cs"
  by (simp add: othersWeight_def)

lemma occurrences_Cons:
  "occurrences c (e # cs) = (if snd e = c then 1 else 0) + occurrences c cs"
  by (simp add: occurrences_def)

lemma calcOverallStep_add:
  "calcOverallStep h c p q incl e (a, b) =
     (a + (if snd e = c then (if incl \<and> q > 0 then weight (h c) * (p / q * 100) else 0)
           else if possible (h (snd e)) > 0
           then points (h (snd e)) / possible (h (snd e)) * 100 * weight (h (snd e)) else 0),
      b + (if snd e = c then (if incl \<and> q > 0 then weight (h c) else 0)
           else if possible (h (snd e)) > 0 then weight (h (snd e)) else 0))"
  by (simp add: calcOverallStep_def Let_def)

lemma fold_calcOverallStep:
  "fold (calcOverallStep h c p q incl) cs (a, b) =
     (a + othersWeighted h c cs
        + (if incl \<and> q > 0 then occurrences c cs * weight (h c) * (p / q * 100) else 0),
      b + othersWeight h c cs
        + (if incl \<and> q > 0 then occurrences c cs * weight (h c) else 0))"
proof (induction cs arbitrary: a b)
  case Nil
  show ?case by (simp add: othersWeighted_def othersWeight_def occurrences_def)
next
  case (Cons e cs)
  have "fold (calcOverallStep h c p q incl) (e # cs) (a, b) =
      fold (calcOverallStep h c p q incl) cs (calcOverallStep h c p q incl e (a, b))"
    by simp
  also have "\<dots> =
      (a + othersWeighted h c (e # cs)
         + (if incl \<and> q > 0 then occurrences c (e # cs) * weight (h c) * (p / q * 100) else 0),
       b + othersWeight h c (e # cs)
         + (if incl \<and> q > 0 then occurrences c (e # cs) * weight (h c) else 0))"
    unfolding calcOverallStep_add Cons.IH othersWeighted_Cons othersWeight_Cons occurrences_Cons
    by (simp add: algebra_simps)
  finally show ?case .
qed

lemma calcOverall_sums:
  "calcOverall h c cs p q incl =
     (if incl \<and> q > 0
      then (if othersWeight h c cs + occurrences c cs * weight (h c) = 0 then 0
            else (othersWeighted h c cs + occurrences c cs * weight (h c) * (p / q * 100))
                 / (othersWeight h c cs + occurrences c cs * weight (h c)))
      else (if othersWeight h c cs = 0 then 0
            else othersWeighted h c cs / othersWeight h c cs))"
proof -
  define inc where "inc \<longleftrightarrow> incl \<and> q > 0"
  define x where "x = occurrences c cs * weight (h c) * (p / q * 100)"
  define y where "y = occurrences c cs * weight (h c)"
  have "fold (calcOverallStep h c p q incl) cs (0, 0) =
      (0 + othersWeighted h c cs + (if inc then x else 0),
       0 + othersWeight h c cs + (if inc then y else 0))"
    unfolding inc_def x_def y_def by (rule fold_calcOverallStep)
  then have "calcOverall h c cs p q incl =
      (if othersWeight h c cs + (if inc then y else 0) = 0 then 0
       else (othersWeighted h c cs + (if inc then x else 0))
            / (othersWeight h c cs + (if inc then y else 0)))"
    by (simp add: calcOverall_def Let_def)
  also have "\<dots> =
      (if inc
       then (if othersWeight h c cs + y = 0 then 0
             else (othersWeighted h c cs + x) / (othersWeight h c cs + y))
       else (if othersWeight h c cs = 0 then 0
             else othersWeighted h c cs / othersWeight h c cs))"
    by (cases inc) simp_all
  finally show ?thesis unfolding inc_def x_def y_def .
qed

section \<open>The order of the map\<close>

lemma gzOverallStep_add:
  "gzOverallStep h c catPct e (a, b) =
     (a + (if snd e = c then weight (h c) * catPct
           else if possible (h (snd e)) > 0
           then points (h (snd e)) / possible (h (snd e)) * 100 * weight (h (snd e)) else 0),
      b + (if snd e = c then weight (h c)
           else if possible (h (snd e)) > 0 then weight (h (snd e)) else 0))"
  by (simp add: gzOverallStep_def Let_def)

lemma fold_gzOverallStep:
  "fold (gzOverallStep h c catPct) cs (a, b) =
     (a + othersWeighted h c cs + occurrences c cs * weight (h c) * catPct,
      b + othersWeight h c cs + occurrences c cs * weight (h c))"
proof (induction cs arbitrary: a b)
  case Nil
  show ?case by (simp add: othersWeighted_def othersWeight_def occurrences_def)
next
  case (Cons e cs)
  have "fold (gzOverallStep h c catPct) (e # cs) (a, b) =
      fold (gzOverallStep h c catPct) cs (gzOverallStep h c catPct e (a, b))"
    by simp
  also have "\<dots> =
      (a + othersWeighted h c (e # cs) + occurrences c (e # cs) * weight (h c) * catPct,
       b + othersWeight h c (e # cs) + occurrences c (e # cs) * weight (h c))"
    unfolding gzOverallStep_add Cons.IH othersWeighted_Cons othersWeight_Cons occurrences_Cons
    by (simp add: algebra_simps)
  finally show ?case .
qed

lemma gzOverall_sums:
  "gzOverall h c cs p q =
     (if q = 0 then 0
      else if othersWeight h c cs + occurrences c cs * weight (h c) = 0 then 0
      else (othersWeighted h c cs + occurrences c cs * weight (h c) * (p / q * 100))
           / (othersWeight h c cs + occurrences c cs * weight (h c)))"
  by (simp add: gzOverall_def fold_gzOverallStep Let_def)

lemma fold_totals:
  "fold (\<lambda>e t. (fst t + points (h (snd e)), snd t + possible (h (snd e)))) cs (a, b) =
     (a + sum_list (map (\<lambda>e. points (h (snd e))) cs),
      b + sum_list (map (\<lambda>e. possible (h (snd e))) cs))"
  by (induction cs arbitrary: a b) (simp_all add: algebra_simps)

lemma totals_sums:
  "totals weighted h cs =
     (if weighted then (0, 0)
      else (sum_list (map (\<lambda>e. points (h (snd e))) cs),
            sum_list (map (\<lambda>e. possible (h (snd e))) cs)))"
  by (simp add: totals_def fold_totals)

text \<open>
  Go ranges over the map of category states in an unspecified order. In the model, over
  the reals, the overall percentages and the totals are the same for every order of the
  entries, so the list order of the model is no restriction there.
\<close>

lemma sum_list_map_filter_mset:
  fixes f :: "'a \<Rightarrow> real"
  shows "sum_list (map f (filter P xs)) = sum_mset (image_mset f (filter_mset P (mset xs)))"
proof -
  have "sum_list (map f (filter P xs)) = sum_mset (mset (map f (filter P xs)))"
    by (simp only: sum_mset_sum_list)
  then show ?thesis by simp
qed

lemma others_order:
  assumes "mset cs = mset cs'"
  shows "othersWeighted h c cs = othersWeighted h c cs'"
    and "othersWeight h c cs = othersWeight h c cs'"
    and "occurrences c cs = occurrences c cs'"
proof -
  show "othersWeighted h c cs = othersWeighted h c cs'"
    unfolding othersWeighted_def sum_list_map_filter_mset assms ..
  show "othersWeight h c cs = othersWeight h c cs'"
    unfolding othersWeight_def sum_list_map_filter_mset assms ..
  have "length (filter (\<lambda>e. snd e = c) cs) = size (filter_mset (\<lambda>e. snd e = c) (mset cs))"
    by (simp flip: mset_filter)
  moreover have "length (filter (\<lambda>e. snd e = c) cs') = size (filter_mset (\<lambda>e. snd e = c) (mset cs'))"
    by (simp flip: mset_filter)
  ultimately show "occurrences c cs = occurrences c cs'"
    unfolding occurrences_def using assms by simp
qed

lemma calcOverall_order:
  "mset cs = mset cs' \<Longrightarrow> calcOverall h c cs p q incl = calcOverall h c cs' p q incl"
  unfolding calcOverall_sums by (simp only: others_order [of cs cs'])

lemma gzOverall_order:
  "mset cs = mset cs' \<Longrightarrow> gzOverall h c cs p q = gzOverall h c cs' p q"
  unfolding gzOverall_sums by (simp only: others_order [of cs cs'])

lemma totals_order:
  assumes "mset cs = mset cs'"
  shows "totals weighted h cs = totals weighted h cs'"
proof -
  have "sum_list (map f cs) = sum_list (map f cs')" for f :: "int \<times> addr \<Rightarrow> real"
    using sum_list_map_filter_mset [of f "\<lambda>_. True" cs]
      sum_list_map_filter_mset [of f "\<lambda>_. True" cs'] assms
    by simp
  then show ?thesis unfolding totals_sums by simp
qed

lemma impact_order:
  assumes "mset cs = mset cs'"
  shows "calculateWeightedImpact h c pts cur cs = calculateWeightedImpact h c pts cur cs'"
    and "calculateGradedZeroWeightedImpact h c pts cur cs
          = calculateGradedZeroWeightedImpact h c pts cur cs'"
  unfolding calculateWeightedImpact_def calculateGradedZeroWeightedImpact_def
    bestOverall_def worstOverall_def calcCurrentOverall_def
  by (simp_all only: calcOverall_order [OF assms] gzOverall_order [OF assms])

end
